theory Spec2Isabelle
  imports Complex_Main
begin

section \<open>Identifiers, time and errors\<close>

text \<open>
  A \<^verbatim>\<open>datetime\<close> is its number of milliseconds since the epoch, the resolution at which
  the document store keeps dates; \<^verbatim>\<open>timedelta(minutes=m)\<close> is \<open>m * 60000\<close>.  Every
  operation receives the reading of \<^verbatim>\<open>datetime.utcnow()\<close> as an argument \<open>now\<close>; the
  successive readings taken inside one call are taken to be the same instant.
\<close>

type_synonym datetime = int

definition timedelta_minutes :: "int \<Rightarrow> int" where
  "timedelta_minutes m = m * 60000"

text \<open>
  A store identifier (\<^verbatim>\<open>bson.ObjectId\<close>) is an opaque value.  A string handed to
  \<^verbatim>\<open>ObjectId(...)\<close> is either the text of an identifier or some other string, on which
  \<^verbatim>\<open>ObjectId\<close> raises \<^verbatim>\<open>InvalidId\<close> (the result \<open>None\<close> below); \<^verbatim>\<open>str\<close> of an
  identifier is its text.
\<close>

datatype oid = Oid nat

datatype id_text = OidText oid | BadText string

definition ObjectId :: "id_text \<Rightarrow> oid option" where
  "ObjectId t = (case t of OidText i \<Rightarrow> Some i | BadText _ \<Rightarrow> None)"

definition str_oid :: "oid \<Rightarrow> id_text" where
  "str_oid i = OidText i"

datatype error = InvalidId | DuplicateKeyError | KeyError | TypeError | HTTPException nat

section \<open>The document store\<close>

text \<open>
  A collection is the list of its documents in store order.  \<^verbatim>\<open>find_one\<close> returns the
  first document that matches the query, \<^verbatim>\<open>update_one\<close> changes the first document that
  matches and no other, \<^verbatim>\<open>count_documents\<close> counts the matches.
\<close>

fun find_one :: "('a \<Rightarrow> bool) \<Rightarrow> 'a list \<Rightarrow> 'a option" where
  "find_one q [] = None"
| "find_one q (x # xs) = (if q x then Some x else find_one q xs)"

fun update_one :: "('a \<Rightarrow> bool) \<Rightarrow> ('a \<Rightarrow> 'a) \<Rightarrow> 'a list \<Rightarrow> 'a list" where
  "update_one q f [] = []"
| "update_one q f (x # xs) = (if q x then f x # xs else x # update_one q f xs)"

definition matched_count :: "('a \<Rightarrow> bool) \<Rightarrow> 'a list \<Rightarrow> nat" where
  "matched_count q c = (case find_one q c of None \<Rightarrow> 0 | Some _ \<Rightarrow> 1)"

definition modified_count :: "('a \<Rightarrow> bool) \<Rightarrow> ('a \<Rightarrow> 'a) \<Rightarrow> 'a list \<Rightarrow> nat" where
  "modified_count q f c = (case find_one q c of None \<Rightarrow> 0 | Some x \<Rightarrow> if f x = x then 0 else 1)"

definition count_documents :: "('a \<Rightarrow> bool) \<Rightarrow> 'a list \<Rightarrow> nat" where
  "count_documents q c = length (filter q c)"

section \<open>Double precision numbers\<close>

text \<open>
  A Python \<^verbatim>\<open>float\<close> is a binary64 number.  A finite one is modelled by its value, a real
  number.  \<open>fl x\<close> is the double nearest to \<open>x\<close>, a tie going to the even significand:
  the significand has 53 bits and no quantum is below \<^verbatim>\<open>2 ** -1074\<close>.  It multiplies
  \<open>x\<close> by the power of two that brings it between \<^verbatim>\<open>2 ** 52\<close> and \<^verbatim>\<open>2 ** 53\<close> (by
  \<^verbatim>\<open>2 ** 1074\<close> when \<open>x\<close> is too small for that), rounds to a whole number and scales
  back; \<open>bit_length\<close> finds the power from the whole part of \<open>x\<close> or of \<open>1 / x\<close>.  The sum,
  difference, product and quotient of two floats, the quotient of two integers and the
  conversion of an integer are the exact results rounded by \<open>fl\<close>.  Infinite results are
  left out: the statements keep the numbers far below the largest double.
\<close>

definition round_half_even :: "real \<Rightarrow> int" where
  "round_half_even x =
     (let f = \<lfloor>x\<rfloor>; r = x - of_int f
      in if r < 1 / 2 then f
         else if 1 / 2 < r then f + 1
         else if even f then f else f + 1)"

fun bit_length :: "int \<Rightarrow> nat" where
  "bit_length n = (if n \<le> 0 then 0 else Suc (bit_length (n div 2)))"

declare bit_length.simps [simp del]

definition fl :: "real \<Rightarrow> real" where
  "fl x =
     (if 1 \<le> \<bar>x\<bar>
      then (let k = bit_length \<lfloor>\<bar>x\<bar>\<rfloor>
            in if 53 \<le> k then of_int (round_half_even (x / 2 ^ (k - 53))) * 2 ^ (k - 53)
               else of_int (round_half_even (x * 2 ^ (53 - k))) / 2 ^ (53 - k))
      else (let s = min (bit_length \<lfloor>1 / \<bar>x\<bar>\<rfloor> + 52) 1074
            in of_int (round_half_even (x * 2 ^ s)) / 2 ^ s))"

text \<open>
  \<^verbatim>\<open>round(x, 2)\<close> writes the exact value of the float with two decimals, a tie going to
  the even digit, and reads the decimal string back as a float.  \<^verbatim>\<open>int(x)\<close> cuts the
  fraction off, towards zero.
\<close>

definition round2 :: "real \<Rightarrow> real" where
  "round2 x = fl (of_int (round_half_even (x * 100)) / 100)"

definition py_int :: "real \<Rightarrow> int" where
  "py_int x = (if 0 \<le> x then \<lfloor>x\<rfloor> else \<lceil>x\<rceil>)"

text \<open>
  \<^verbatim>\<open>x ** y\<close> on floats is \<^verbatim>\<open>float_pow\<close> of the interpreter, which hands a positive base
  other than 1 to the function \<^verbatim>\<open>pow\<close> of the C library.  That function is not part of the
  program and is not correctly rounded in every C library (with glibc 2.39,
  \<^verbatim>\<open>23.34662957569856 ** 2\<close> is 545.0651125448827 and the product of the number with
  itself is 545.0651125448828), so it is a parameter, \<open>pow\<close>, of everything that raises
  to a power.  The source raises to the powers 2 and 0.5 only:
  the exponent is positive, a zero base gives 0, a negative base (at the even exponent 2)
  is replaced by its absolute value, and the base 1 gives 1.  The base of \<^verbatim>\<open>** 0.5\<close> is
  the float sum of two squares, which is not negative since the C library's function is
  not negative on a positive base.
\<close>

type_synonym libm_pow = "real \<Rightarrow> real \<Rightarrow> real"

definition float_pow :: "libm_pow \<Rightarrow> real \<Rightarrow> real \<Rightarrow> real" where
  "float_pow pow iv iw =
     (if iv = 0 then 0
      else if \<bar>iv\<bar> = 1 then 1
      else pow \<bar>iv\<bar> iw)"

section \<open>The delivery service (app/services/delivery\_service.py)\<close>

record location =
  latitude :: real
  longitude :: real

text \<open>
  The models accept a latitude from -90 to 90 and a longitude from -180 to 180, and
  nothing else.
\<close>

definition valid_location :: "location \<Rightarrow> bool" where
  "valid_location l \<longleftrightarrow>
     - 90 \<le> latitude l \<and> latitude l \<le> 90 \<and> - 180 \<le> longitude l \<and> longitude l \<le> 180"

record address =
  street :: string
  city :: string
  coordinates :: location

record track_event =
  event :: string
  description :: string
  timestamp :: datetime

text \<open>
  The documents are dictionaries; the records hold the fields the service reads or
  writes.  A field whose value is \<^verbatim>\<open>None\<close>, or that is absent, is \<open>None\<close>.
\<close>

record driver_doc =
  drv_id :: oid
  drv_name :: string
  drv_phone :: string
  drv_status :: string
  is_online :: bool
  current_delivery_id :: "oid option"

record delivery_doc =
  dlv_id :: oid
  order_id :: string
  customer_id :: string
  restaurant_id :: string
  pickup_address :: address
  delivery_address :: address
  customer_phone :: "string option"
  delivery_instructions :: "string option"
  status :: string
  driver_id :: "oid option"
  estimated_delivery_time :: "datetime option"
  actual_delivery_time :: "datetime option"
  current_location :: "location option"
  tracking_history :: "track_event list"
  created_at :: datetime
  updated_at :: datetime
  delivery_proof :: "string option"
  customer_notes :: "string option"
  driver_notes :: "string option"

record db =
  deliveries_collection :: "delivery_doc list"
  drivers_collection :: "driver_doc list"

text \<open>The argument of \<^verbatim>\<open>create_delivery\<close>: the keys it reads.\<close>

record delivery_data =
  dd_order_id :: string
  dd_customer_id :: string
  dd_restaurant_id :: string
  dd_pickup_address :: address
  dd_delivery_address :: address
  dd_customer_phone :: "string option"
  dd_delivery_instructions :: "string option"

text \<open>
  The argument of \<^verbatim>\<open>update_delivery\<close>: the fields of \<^verbatim>\<open>DeliveryUpdate\<close>; \<open>None\<close> is a key
  that the dictionary does not have.
\<close>

record update_data =
  upd_status :: "string option"
  upd_current_location :: "location option"
  upd_delivery_proof :: "string option"
  upd_customer_notes :: "string option"
  upd_driver_notes :: "string option"

definition by_id :: "oid \<Rightarrow> delivery_doc \<Rightarrow> bool" where
  "by_id i d = (dlv_id d = i)"

definition driver_by_id :: "oid \<Rightarrow> driver_doc \<Rightarrow> bool" where
  "driver_by_id i d = (drv_id d = i)"

definition push_tracking :: "track_event \<Rightarrow> delivery_doc \<Rightarrow> delivery_doc" where
  "push_tracking e d = d\<lparr>tracking_history := tracking_history d @ [e]\<rparr>"

text \<open>\<^verbatim>\<open>add_tracking_event\<close>: an exception (the identifier does not parse) is swallowed.\<close>

definition add_tracking_event :: "db \<Rightarrow> id_text \<Rightarrow> string \<Rightarrow> string \<Rightarrow> datetime \<Rightarrow> db" where
  "add_tracking_event s delivery_id ev descr now =
     (case ObjectId delivery_id of
        None \<Rightarrow> s
      | Some i \<Rightarrow>
          s\<lparr>deliveries_collection :=
              update_one (by_id i)
                (push_tracking \<lparr>event = ev, description = descr, timestamp = now\<rparr>)
                (deliveries_collection s)\<rparr>)"

text \<open>
  \<^verbatim>\<open>get_delivery\<close> returns the document with its identifiers turned into their texts;
  \<^verbatim>\<open>ObjectId\<close> reads such a text back as the identifier, so the model returns the document.
\<close>

definition get_delivery :: "db \<Rightarrow> id_text \<Rightarrow> delivery_doc option" where
  "get_delivery s delivery_id =
     (case ObjectId delivery_id of
        None \<Rightarrow> None
      | Some i \<Rightarrow> find_one (by_id i) (deliveries_collection s))"

definition get_delivery_by_order :: "db \<Rightarrow> string \<Rightarrow> delivery_doc option" where
  "get_delivery_by_order s oid' = find_one (\<lambda>d. order_id d = oid') (deliveries_collection s)"

definition find_available_driver :: "db \<Rightarrow> address \<Rightarrow> driver_doc option" where
  "find_available_driver s pickup =
     find_one (\<lambda>d. drv_status d = ''available'' \<and> is_online d) (drivers_collection s)"

definition status_messages :: "string \<Rightarrow> string option" where
  "status_messages st =
     (if st = ''assigned'' then Some ''Driver assigned to delivery''
      else if st = ''picked_up'' then Some ''Order picked up from restaurant''
      else if st = ''in_transit'' then Some ''On the way to delivery address''
      else if st = ''delivered'' then Some ''Order delivered successfully''
      else if st = ''cancelled'' then Some ''Delivery cancelled''
      else None)"

definition release_driver :: "driver_doc \<Rightarrow> driver_doc" where
  "release_driver d = d\<lparr>drv_status := ''available'', current_delivery_id := None\<rparr>"

text \<open>
  \<^verbatim>\<open>handle_status_change\<close>: the tracking event, the release of the driver on
  \<^verbatim>\<open>delivered\<close> and \<^verbatim>\<open>cancelled\<close>, the stamp on \<^verbatim>\<open>delivered\<close>.  The stamp parses the
  identifier outside any \<^verbatim>\<open>try\<close>, so a string that does not parse raises there.
\<close>

definition status_message :: "string \<Rightarrow> string" where
  "status_message new_status =
     (case status_messages new_status of
        Some m \<Rightarrow> m
      | None \<Rightarrow> ''Status updated to '' @ new_status)"

definition release_assigned_driver :: "db \<Rightarrow> id_text \<Rightarrow> db" where
  "release_assigned_driver s delivery_id =
     (case get_delivery s delivery_id of
        None \<Rightarrow> s
      | Some delivery \<Rightarrow>
          (case driver_id delivery of
             None \<Rightarrow> s
           | Some drv \<Rightarrow>
               s\<lparr>drivers_collection :=
                   update_one (driver_by_id drv) release_driver (drivers_collection s)\<rparr>))"

definition handle_status_change ::
    "db \<Rightarrow> id_text \<Rightarrow> string \<Rightarrow> datetime \<Rightarrow> error option \<times> db" where
  "handle_status_change s delivery_id new_status now =
     (let message = status_message new_status;
          s1 = add_tracking_event s delivery_id new_status message now;
          s2 = (if new_status \<in> set [''delivered'', ''cancelled'']
                then release_assigned_driver s1 delivery_id
                else s1)
      in if new_status = ''delivered''
         then (case ObjectId delivery_id of
                 None \<Rightarrow> (Some InvalidId, s2)
               | Some i \<Rightarrow>
                   (None, s2\<lparr>deliveries_collection :=
                               update_one (by_id i) (\<lambda>d. d\<lparr>actual_delivery_time := Some now\<rparr>)
                                 (deliveries_collection s2)\<rparr>))
         else (None, s2))"

text \<open>The \<^verbatim>\<open>$set\<close> of \<^verbatim>\<open>update_delivery\<close>: \<^verbatim>\<open>updated_at\<close> and the keys of the argument.\<close>

definition set_fields :: "update_data \<Rightarrow> datetime \<Rightarrow> delivery_doc \<Rightarrow> delivery_doc" where
  "set_fields u now d =
     d\<lparr>updated_at := now,
       status := (case upd_status u of None \<Rightarrow> status d | Some v \<Rightarrow> v),
       current_location :=
         (case upd_current_location u of None \<Rightarrow> current_location d | Some v \<Rightarrow> Some v),
       delivery_proof :=
         (case upd_delivery_proof u of None \<Rightarrow> delivery_proof d | Some v \<Rightarrow> Some v),
       customer_notes :=
         (case upd_customer_notes u of None \<Rightarrow> customer_notes d | Some v \<Rightarrow> Some v),
       driver_notes :=
         (case upd_driver_notes u of None \<Rightarrow> driver_notes d | Some v \<Rightarrow> Some v)\<rparr>"

text \<open>
  \<^verbatim>\<open>update_delivery\<close>.  The side effects of the new status run first, the write of the
  ledger (\<^verbatim>\<open>update_one\<close> with \<^verbatim>\<open>$set\<close>) second.  \<open>write_fails\<close> is the outcome of that
  write when the store raises; the \<^verbatim>\<open>except\<close> clause turns every exception into
  \<^verbatim>\<open>None\<close>.  The other store operations are taken to succeed.
\<close>

definition update_delivery ::
    "db \<Rightarrow> id_text \<Rightarrow> update_data \<Rightarrow> datetime \<Rightarrow> bool \<Rightarrow> delivery_doc option \<times> db" where
  "update_delivery s delivery_id u now write_fails =
     (let (e, s1) = (case upd_status u of
                       None \<Rightarrow> (None, s)
                     | Some st \<Rightarrow> handle_status_change s delivery_id st now)
      in case e of
           Some _ \<Rightarrow> (None, s1)
         | None \<Rightarrow>
             (case ObjectId delivery_id of
                None \<Rightarrow> (None, s1)
              | Some i \<Rightarrow>
                  if write_fails then (None, s1)
                  else
                    let c = deliveries_collection s1;
                        s2 = s1\<lparr>deliveries_collection := update_one (by_id i) (set_fields u now) c\<rparr>
                    in if modified_count (by_id i) (set_fields u now) c > 0
                       then (get_delivery s2 delivery_id, s2)
                       else (None, s2)))"

text \<open>
  \<^verbatim>\<open>create_delivery\<close>.  \<open>new_id\<close> is the identifier that \<^verbatim>\<open>ObjectId()\<close> generates;
  \<^verbatim>\<open>insert_one\<close> raises on an identifier that the collection already has, after the
  driver was marked busy.  The dictionary returned is the local one: its
  \<^verbatim>\<open>tracking_history\<close> is empty, the event goes to the stored document.
\<close>

definition new_delivery :: "delivery_data \<Rightarrow> oid \<Rightarrow> datetime \<Rightarrow> delivery_doc" where
  "new_delivery dd new_id now =
     \<lparr>dlv_id = new_id,
      order_id = dd_order_id dd,
      customer_id = dd_customer_id dd,
      restaurant_id = dd_restaurant_id dd,
      pickup_address = dd_pickup_address dd,
      delivery_address = dd_delivery_address dd,
      customer_phone = dd_customer_phone dd,
      delivery_instructions = dd_delivery_instructions dd,
      status = ''pending'',
      driver_id = None,
      estimated_delivery_time = None,
      actual_delivery_time = None,
      current_location = None,
      tracking_history = [],
      created_at = now,
      updated_at = now,
      delivery_proof = None,
      customer_notes = None,
      driver_notes = None\<rparr>"

definition create_delivery ::
    "db \<Rightarrow> delivery_data \<Rightarrow> oid \<Rightarrow> datetime \<Rightarrow> (error + delivery_doc) \<times> db" where
  "create_delivery s dd new_id now =
     (let delivery0 = new_delivery dd new_id now;
          (delivery, s1) =
            (case find_available_driver s (dd_pickup_address dd) of
               None \<Rightarrow> (delivery0, s)
             | Some available_driver \<Rightarrow>
                 (delivery0\<lparr>driver_id := Some (drv_id available_driver),
                            status := ''assigned'',
                            estimated_delivery_time := Some (now + timedelta_minutes 30)\<rparr>,
                  s\<lparr>drivers_collection :=
                      update_one (driver_by_id (drv_id available_driver))
                        (\<lambda>d. d\<lparr>drv_status := ''busy'', current_delivery_id := Some new_id\<rparr>)
                        (drivers_collection s)\<rparr>))
      in if find_one (by_id new_id) (deliveries_collection s1) \<noteq> None
         then (Inl DuplicateKeyError, s1)
         else
           let s2 = s1\<lparr>deliveries_collection := deliveries_collection s1 @ [delivery]\<rparr>;
               s3 = add_tracking_event s2 (str_oid new_id) ''created'' ''Delivery created'' now
           in (Inr delivery, s3))"

text \<open>
  The event bridge (app/services/message\_handler.py): a successful payment writes the
  status \<^verbatim>\<open>confirmed\<close>.
\<close>

definition status_only :: "string \<Rightarrow> update_data" where
  "status_only st =
     \<lparr>upd_status = Some st, upd_current_location = None, upd_delivery_proof = None,
      upd_customer_notes = None, upd_driver_notes = None\<rparr>"

definition handle_payment_successful :: "db \<Rightarrow> string \<Rightarrow> datetime \<Rightarrow> db" where
  "handle_payment_successful s order now =
     (case get_delivery_by_order s order of
        None \<Rightarrow> s
      | Some delivery \<Rightarrow>
          snd (update_delivery s (str_oid (dlv_id delivery)) (status_only ''confirmed'') now False))"

text \<open>
  \<^verbatim>\<open>get_delivery_statistics\<close>.  The two counts are integers, their quotient is a float,
  multiplied by 100 and rounded by \<^verbatim>\<open>round\<close>.  The pipeline matches the delivered
  documents (every document of the service has the field \<^verbatim>\<open>actual_delivery_time\<close>,
  possibly null).  \<^verbatim>\<open>$subtract\<close> of two dates is their distance in milliseconds, an
  integer, and null when a date is null; \<^verbatim>\<open>$divide\<close> converts it to a double and divides.
  \<^verbatim>\<open>$avg\<close> skips nulls: it adds the doubles in extended precision, taken here to be exact,
  rounds the sum and divides it by the count; it is null when it has no number, and then
  \<^verbatim>\<open>round\<close> raises \<^verbatim>\<open>TypeError\<close>, which the \<^verbatim>\<open>except\<close> clause turns into an error
  dictionary.
\<close>

record statistics =
  total_deliveries :: nat
  completed_deliveries :: nat
  pending_deliveries :: nat
  active_drivers :: nat
  available_drivers :: nat
  average_delivery_time_minutes :: real
  completion_rate :: real

definition divide_minutes :: "int \<Rightarrow> real" where
  "divide_minutes ms = fl (fl (of_int ms) / 60000)"

definition delivery_time_minutes :: "delivery_doc \<Rightarrow> real option" where
  "delivery_time_minutes d =
     (case actual_delivery_time d of
        None \<Rightarrow> None
      | Some t \<Rightarrow> Some (divide_minutes (t - created_at d)))"

definition avg_doubles :: "real list \<Rightarrow> real" where
  "avg_doubles nums = fl (fl (sum_list nums) / fl (of_nat (length nums)))"

definition avg :: "real option list \<Rightarrow> real option" where
  "avg vs =
     (let nums = concat (map (\<lambda>v. case v of None \<Rightarrow> [] | Some x \<Rightarrow> [x]) vs)
      in if nums = [] then None else Some (avg_doubles nums))"

definition aggregate_avg_delivery_time :: "delivery_doc list \<Rightarrow> real option list" where
  "aggregate_avg_delivery_time c =
     (let matched = filter (\<lambda>d. status d = ''delivered'') c
      in if matched = [] then [] else [avg (map delivery_time_minutes matched)])"

definition get_delivery_statistics :: "db \<Rightarrow> error + statistics" where
  "get_delivery_statistics s =
     (let total = count_documents (\<lambda>d. True) (deliveries_collection s);
          completed = count_documents (\<lambda>d. status d = ''delivered'') (deliveries_collection s);
          pending = count_documents (\<lambda>d. status d \<notin> set [''delivered'', ''cancelled''])
                      (deliveries_collection s);
          active = count_documents (\<lambda>d. drv_status d = ''busy'') (drivers_collection s);
          available = count_documents (\<lambda>d. drv_status d = ''available'' \<and> is_online d)
                        (drivers_collection s);
          avg_result = aggregate_avg_delivery_time (deliveries_collection s);
          avg_delivery_time = (case avg_result of [] \<Rightarrow> Some 0 | v # _ \<Rightarrow> v)
      in case avg_delivery_time of
           None \<Rightarrow> Inl TypeError
         | Some a \<Rightarrow>
             Inr \<lparr>total_deliveries = total,
                  completed_deliveries = completed,
                  pending_deliveries = pending,
                  active_drivers = active,
                  available_drivers = available,
                  average_delivery_time_minutes = round2 a,
                  completion_rate =
                    (if total > 0
                     then round2 (fl (fl (of_nat completed / of_nat total) * 100))
                     else 0)\<rparr>)"

section \<open>The tracking service (src/main.py)\<close>

text \<open>
  The second service keeps its own documents: a driver has the flag \<^verbatim>\<open>is_available\<close>, a
  delivery has no tracking history.  A stored document is the pair of its identifier and
  its body.  A delivery keeps the identifier of its driver as a string.
\<close>

record Driver =
  name :: string
  phone :: string
  vehicle_type :: string
  driver_location :: location
  is_available :: bool
  rating :: real

record Delivery =
  d_order_id :: string
  d_driver_id :: "id_text option"
  d_pickup_address :: address
  d_delivery_address :: address
  d_status :: string
  d_estimated_delivery_time :: "datetime option"
  d_actual_pickup_time :: "datetime option"
  d_actual_delivery_time :: "datetime option"
  tracking_number :: string
  d_created_at :: datetime
  d_updated_at :: datetime

record DeliveryUpdate =
  u_delivery_id :: string
  u_status :: string
  u_location :: "location option"
  u_estimated_time :: "int option"

type_synonym websocket = nat

text \<open>
  A delivery as the routes hold it, a dictionary: the key \<^verbatim>\<open>_id\<close> of the store, the key
  \<^verbatim>\<open>id\<close> with the text of the identifier, and the fields of the delivery.
\<close>

record delivery_dict =
  key__id :: "oid option"
  key_id :: "id_text option"
  body :: Delivery

record message =
  msg_type :: string
  msg_delivery :: "delivery_dict option"
  msg_location :: "location option"

record ConnectionManager =
  active_connections :: "websocket list"
  delivery_subscribers :: "id_text \<rightharpoonup> websocket list"

record api_state =
  drivers :: "(oid \<times> Driver) list"
  deliveries :: "(oid \<times> Delivery) list"
  manager :: ConnectionManager

text \<open>The truth value of a string: the empty string is false.\<close>

definition truthy :: "id_text \<Rightarrow> bool" where
  "truthy t = (case t of OidText _ \<Rightarrow> True | BadText b \<Rightarrow> b \<noteq> [])"

definition has_id :: "oid \<Rightarrow> oid \<times> 'a \<Rightarrow> bool" where
  "has_id i doc = (fst doc = i)"

subsection \<open>The connection manager\<close>

definition connect ::
    "ConnectionManager \<Rightarrow> websocket \<Rightarrow> id_text option \<Rightarrow> ConnectionManager" where
  "connect m ws delivery_id =
     (let m1 = m\<lparr>active_connections := active_connections m @ [ws]\<rparr>
      in case delivery_id of
           None \<Rightarrow> m1
         | Some k \<Rightarrow>
             if truthy k
             then (let subs = (case delivery_subscribers m1 k of None \<Rightarrow> [] | Some l \<Rightarrow> l)
                   in m1\<lparr>delivery_subscribers := (delivery_subscribers m1)(k \<mapsto> subs @ [ws])\<rparr>)
             else m1)"

definition disconnect ::
    "ConnectionManager \<Rightarrow> websocket \<Rightarrow> id_text option \<Rightarrow> ConnectionManager" where
  "disconnect m ws delivery_id =
     (let m1 = (if ws \<in> set (active_connections m)
                then m\<lparr>active_connections := remove1 ws (active_connections m)\<rparr>
                else m)
      in case delivery_id of
           None \<Rightarrow> m1
         | Some k \<Rightarrow>
             if truthy k
             then (case delivery_subscribers m1 k of
                     None \<Rightarrow> m1
                   | Some subs \<Rightarrow>
                       if ws \<in> set subs
                       then m1\<lparr>delivery_subscribers :=
                                 (delivery_subscribers m1)(k \<mapsto> remove1 ws subs)\<rparr>
                       else m1)
             else m1)"

text \<open>
  \<^verbatim>\<open>send_delivery_update\<close>.  \<open>send_ok c\<close> says whether \<^verbatim>\<open>send_text\<close> on the connection
  \<open>c\<close> succeeds; the third component of the result lists the sends that succeeded, in
  order.  When a send raises, the handler evaluates \<^verbatim>\<open>await self.disconnect(...)\<close>:
  \<^verbatim>\<open>disconnect\<close> is a plain function, so the call runs, returns \<^verbatim>\<open>None\<close>, and awaiting
  \<^verbatim>\<open>None\<close> raises \<^verbatim>\<open>TypeError\<close> inside the handler, which leaves the loop and the
  function.  Up to that point the subscriber list is not changed, so the loop runs over
  the list as it was at the start.
\<close>

fun send_loop ::
    "(websocket \<Rightarrow> bool) \<Rightarrow> id_text \<Rightarrow> message \<Rightarrow> websocket list \<Rightarrow> ConnectionManager \<Rightarrow>
     (websocket \<times> message) list \<Rightarrow>
     error option \<times> ConnectionManager \<times> (websocket \<times> message) list" where
  "send_loop send_ok delivery_id msg [] m sent = (None, m, sent)"
| "send_loop send_ok delivery_id msg (connection # rest) m sent =
     (if send_ok connection
      then send_loop send_ok delivery_id msg rest m (sent @ [(connection, msg)])
      else (Some TypeError, disconnect m connection (Some delivery_id), sent))"

definition send_delivery_update ::
    "(websocket \<Rightarrow> bool) \<Rightarrow> ConnectionManager \<Rightarrow> id_text \<Rightarrow> message \<Rightarrow>
     error option \<times> ConnectionManager \<times> (websocket \<times> message) list" where
  "send_delivery_update send_ok m delivery_id msg =
     (case delivery_subscribers m delivery_id of
        None \<Rightarrow> (None, m, [])
      | Some subs \<Rightarrow> send_loop send_ok delivery_id msg subs m [])"

subsection \<open>Matching and the estimated time\<close>

text \<open>
  The distance is computed in floats: two differences, their squares by \<^verbatim>\<open>** 2\<close>, the
  sum, and \<^verbatim>\<open>** 0.5\<close>.  \<open>min_distance\<close> starts at \<^verbatim>\<open>float('inf')\<close>, here \<open>None\<close>: every
  distance is below it.  The cursor is cut at 100 documents.
\<close>

definition distance :: "libm_pow \<Rightarrow> location \<Rightarrow> location \<Rightarrow> real" where
  "distance pow a b =
     float_pow pow
       (fl (float_pow pow (fl (latitude a - latitude b)) 2
            + float_pow pow (fl (longitude a - longitude b)) 2))
       (1 / 2)"

fun nearest_loop ::
    "libm_pow \<Rightarrow> location \<Rightarrow> (oid \<times> Driver) list \<Rightarrow> real option \<Rightarrow>
     (oid \<times> Driver) option \<Rightarrow> (oid \<times> Driver) option" where
  "nearest_loop pow pickup_location [] min_distance nearest_driver = nearest_driver"
| "nearest_loop pow pickup_location (driver # rest) min_distance nearest_driver =
     (let d = distance pow pickup_location (driver_location (snd driver))
      in if (case min_distance of None \<Rightarrow> True | Some m \<Rightarrow> d < m)
         then nearest_loop pow pickup_location rest (Some d) (Some driver)
         else nearest_loop pow pickup_location rest min_distance nearest_driver)"

definition available_drivers_list :: "api_state \<Rightarrow> (oid \<times> Driver) list" where
  "available_drivers_list s = take 100 (filter (\<lambda>doc. is_available (snd doc)) (drivers s))"

definition find_nearest_driver :: "libm_pow \<Rightarrow> api_state \<Rightarrow> location \<Rightarrow> id_text option" where
  "find_nearest_driver pow s pickup_location =
     (let ds = available_drivers_list s
      in if ds = [] then None
         else (case nearest_loop pow pickup_location ds None None of
                 None \<Rightarrow> None
               | Some nearest_driver \<Rightarrow> Some (str_oid (fst nearest_driver))))"

definition calculate_eta :: "libm_pow \<Rightarrow> location \<Rightarrow> location \<Rightarrow> datetime \<Rightarrow> datetime" where
  "calculate_eta pow pickup_location delivery_location now =
     (let base_time = 20;
          additional_time = py_int (fl (distance pow delivery_location pickup_location * 100));
          total_minutes = base_time + additional_time
      in now + timedelta_minutes total_minutes)"

subsection \<open>The routes\<close>

text \<open>
  \<^verbatim>\<open>serialize_delivery\<close> changes the dictionary it is given: it sets \<^verbatim>\<open>id\<close> from
  \<^verbatim>\<open>_id\<close> and deletes \<^verbatim>\<open>_id\<close>.  On a dictionary without \<^verbatim>\<open>_id\<close> the lookup raises
  \<^verbatim>\<open>KeyError\<close>.
\<close>

definition serialize_delivery :: "delivery_dict option \<Rightarrow> error + delivery_dict option" where
  "serialize_delivery delivery_doc =
     (case delivery_doc of
        None \<Rightarrow> Inr None
      | Some doc \<Rightarrow>
          (case key__id doc of
             None \<Rightarrow> Inl KeyError
           | Some i \<Rightarrow> Inr (Some (doc\<lparr>key_id := Some (str_oid i), key__id := None\<rparr>))))"

definition as_dict :: "(oid \<times> Delivery) option \<Rightarrow> delivery_dict option" where
  "as_dict doc =
     map_option (\<lambda>(i, d). \<lparr>key__id = Some i, key_id = None, body = d\<rparr>) doc"

text \<open>
  The tail of both routes: the dictionary is serialized for the message, the message is
  sent, and the same dictionary is serialized again for the response.  Every exception
  that is not an \<^verbatim>\<open>HTTPException\<close> becomes the response 500.
\<close>

definition broadcast_and_respond ::
    "(websocket \<Rightarrow> bool) \<Rightarrow> api_state \<Rightarrow> id_text \<Rightarrow> string \<Rightarrow> delivery_dict option \<Rightarrow>
     location option \<Rightarrow>
     (error + delivery_dict option) \<times> api_state \<times> (websocket \<times> message) list" where
  "broadcast_and_respond send_ok s delivery_id kind doc loc =
     (case serialize_delivery doc of
        Inl _ \<Rightarrow> (Inl (HTTPException 500), s, [])
      | Inr doc1 \<Rightarrow>
          (let msg = \<lparr>msg_type = kind, msg_delivery = doc1, msg_location = loc\<rparr>;
               (e, m', sent) = send_delivery_update send_ok (manager s) delivery_id msg;
               s1 = s\<lparr>manager := m'\<rparr>
           in (case e of
                 Some _ \<Rightarrow> (Inl (HTTPException 500), s1, sent)
               | None \<Rightarrow>
                   (case serialize_delivery doc1 of
                      Inl _ \<Rightarrow> (Inl (HTTPException 500), s1, sent)
                    | Inr doc2 \<Rightarrow> (Inr doc2, s1, sent)))))"

text \<open>
  \<^verbatim>\<open>POST /deliveries\<close>.  The body is the delivery as the client sent it; \<open>new_id\<close> is the
  identifier the insertion generates and writes into the dictionary.
\<close>

definition assign_nearest ::
    "libm_pow \<Rightarrow> api_state \<Rightarrow> Delivery \<Rightarrow> datetime \<Rightarrow> (Delivery \<times> api_state) option" where
  "assign_nearest pow s delivery now =
     (case find_nearest_driver pow s (coordinates (d_pickup_address delivery)) of
        None \<Rightarrow> Some (delivery, s)
      | Some drv_text \<Rightarrow>
          if truthy drv_text
          then (case ObjectId drv_text of
                  None \<Rightarrow> None
                | Some drv \<Rightarrow>
                    Some (delivery\<lparr>d_driver_id := Some drv_text,
                                   d_status := ''assigned'',
                                   d_estimated_delivery_time :=
                                     Some (calculate_eta pow
                                             (coordinates (d_pickup_address delivery))
                                             (coordinates (d_delivery_address delivery))
                                             now)\<rparr>,
                          s\<lparr>drivers := update_one (has_id drv)
                                          (apsnd (\<lambda>d. d\<lparr>is_available := False\<rparr>))
                                          (drivers s)\<rparr>))
          else Some (delivery, s))"

definition create_delivery_route ::
    "libm_pow \<Rightarrow> (websocket \<Rightarrow> bool) \<Rightarrow> api_state \<Rightarrow> Delivery \<Rightarrow> oid \<Rightarrow> datetime \<Rightarrow>
     (error + delivery_dict option) \<times> api_state \<times> (websocket \<times> message) list" where
  "create_delivery_route pow send_ok s delivery new_id now =
     (case assign_nearest pow s delivery now of
        None \<Rightarrow> (Inl (HTTPException 500), s, [])
      | Some (d, s1) \<Rightarrow>
          if find_one (has_id new_id) (deliveries s1) \<noteq> None
          then (Inl (HTTPException 500), s1, [])
          else
            (let s2 = s1\<lparr>deliveries := deliveries s1 @ [(new_id, d)]\<rparr>;
                 doc = \<lparr>key__id = Some new_id, key_id = Some (str_oid new_id), body = d\<rparr>
             in broadcast_and_respond send_ok s2 (str_oid new_id) ''delivery_created''
                  (Some doc) None))"

text \<open>
  \<^verbatim>\<open>PUT /deliveries/{delivery_id}/status\<close>.  An identifier that does not parse is the
  response 400, no matching delivery 404.
\<close>

definition status_update_data :: "DeliveryUpdate \<Rightarrow> datetime \<Rightarrow> Delivery \<Rightarrow> Delivery" where
  "status_update_data update now d =
     (let d1 = d\<lparr>d_status := u_status update, d_updated_at := now\<rparr>
      in if u_status update = ''picked_up'' then d1\<lparr>d_actual_pickup_time := Some now\<rparr>
         else if u_status update = ''delivered'' then d1\<lparr>d_actual_delivery_time := Some now\<rparr>
         else d1)"

definition release_on_delivered :: "api_state \<Rightarrow> oid \<Rightarrow> api_state option" where
  "release_on_delivered s i =
     (case find_one (has_id i) (deliveries s) of
        None \<Rightarrow> Some s
      | Some delivery \<Rightarrow>
          (case d_driver_id (snd delivery) of
             None \<Rightarrow> Some s
           | Some drv_text \<Rightarrow>
               if truthy drv_text
               then (case ObjectId drv_text of
                       None \<Rightarrow> None
                     | Some drv \<Rightarrow>
                         Some (s\<lparr>drivers := update_one (has_id drv)
                                               (apsnd (\<lambda>d. d\<lparr>is_available := True\<rparr>))
                                               (drivers s)\<rparr>))
               else Some s))"

definition update_delivery_status ::
    "(websocket \<Rightarrow> bool) \<Rightarrow> api_state \<Rightarrow> id_text \<Rightarrow> DeliveryUpdate \<Rightarrow> datetime \<Rightarrow>
     (error + delivery_dict option) \<times> api_state \<times> (websocket \<times> message) list" where
  "update_delivery_status send_ok s delivery_id update now =
     (case ObjectId delivery_id of
        None \<Rightarrow> (Inl (HTTPException 400), s, [])
      | Some i \<Rightarrow>
          (case (if u_status update = ''picked_up'' then Some s
                 else if u_status update = ''delivered'' then release_on_delivered s i
                 else Some s) of
             None \<Rightarrow> (Inl (HTTPException 500), s, [])
           | Some s1 \<Rightarrow>
               (let s2 = s1\<lparr>deliveries := update_one (has_id i)
                                              (apsnd (status_update_data update now))
                                              (deliveries s1)\<rparr>
                in if matched_count (has_id i) (deliveries s1) = 0
                   then (Inl (HTTPException 404), s2, [])
                   else broadcast_and_respond send_ok s2 delivery_id ''status_update''
                          (as_dict (find_one (has_id i) (deliveries s2)))
                          (u_location update))))"

section \<open>Descriptions used in the statements\<close>

text \<open>
  The names below describe results; the lemmas relate them to the operations.
  \<open>after_status_change\<close> is a delivery after the tracking event and the stamp,
  \<open>drivers_after\<close> and \<open>drivers_after_route\<close> are the drivers after the release in the
  two services, \<open>before_write\<close> is the store at the moment \<^verbatim>\<open>update_delivery\<close> writes the
  ledger and \<open>doc_before_write\<close> the delivery in it.  \<open>valid_delivery\<close> and
  \<open>valid_drivers\<close> say that the coordinates of a request and of the stored drivers are
  ones the models accept, \<open>pow_not_negative\<close> that the C library's function is not negative
  on a positive base.  \<open>euclidean_distance\<close> is the straight-line distance in exact
  arithmetic, \<open>first_nearest\<close> says that a driver is the first one of minimal computed
  distance in a list.  \<open>scale\<close> is the binary exponent by which \<open>fl\<close> scales a number
  before it rounds to a whole number.  \<open>delivered_minutes\<close> lists the durations, in minutes
  and as the store computes them, of the delivered deliveries that have a delivery time,
  \<open>exact_minutes\<close> the same durations in exact arithmetic, and \<open>mean\<close> is the exact mean.
\<close>

definition status_event :: "string \<Rightarrow> datetime \<Rightarrow> track_event" where
  "status_event st now = \<lparr>event = st, description = status_message st, timestamp = now\<rparr>"

definition after_status_change :: "string \<Rightarrow> datetime \<Rightarrow> delivery_doc \<Rightarrow> delivery_doc" where
  "after_status_change st now d =
     d\<lparr>tracking_history := tracking_history d @ [status_event st now],
       actual_delivery_time := (if st = ''delivered'' then Some now else actual_delivery_time d)\<rparr>"

definition drivers_after :: "string \<Rightarrow> delivery_doc \<Rightarrow> driver_doc list \<Rightarrow> driver_doc list" where
  "drivers_after st d c =
     (if st = ''delivered'' \<or> st = ''cancelled''
      then (case driver_id d of
              None \<Rightarrow> c
            | Some drv \<Rightarrow> update_one (driver_by_id drv) release_driver c)
      else c)"

definition before_write :: "db \<Rightarrow> id_text \<Rightarrow> update_data \<Rightarrow> datetime \<Rightarrow> db" where
  "before_write s delivery_id u now =
     (case upd_status u of
        None \<Rightarrow> s
      | Some st \<Rightarrow> snd (handle_status_change s delivery_id st now))"

definition doc_before_write :: "update_data \<Rightarrow> datetime \<Rightarrow> delivery_doc \<Rightarrow> delivery_doc" where
  "doc_before_write u now d =
     (case upd_status u of None \<Rightarrow> d | Some st \<Rightarrow> after_status_change st now d)"

definition drivers_after_route :: "string \<Rightarrow> Delivery \<Rightarrow> (oid \<times> Driver) list \<Rightarrow> (oid \<times> Driver) list" where
  "drivers_after_route st d c =
     (if st = ''delivered''
      then (case d_driver_id d of
              None \<Rightarrow> c
            | Some t \<Rightarrow>
                (case ObjectId t of
                   None \<Rightarrow> c
                 | Some drv \<Rightarrow> update_one (has_id drv) (apsnd (\<lambda>x. x\<lparr>is_available := True\<rparr>)) c))
      else c)"

definition valid_delivery :: "Delivery \<Rightarrow> bool" where
  "valid_delivery d \<longleftrightarrow>
     valid_location (coordinates (d_pickup_address d))
     \<and> valid_location (coordinates (d_delivery_address d))"

definition valid_drivers :: "api_state \<Rightarrow> bool" where
  "valid_drivers s \<longleftrightarrow> (\<forall>x \<in> set (drivers s). valid_location (driver_location (snd x)))"

definition pow_not_negative :: "libm_pow \<Rightarrow> bool" where
  "pow_not_negative pow \<longleftrightarrow> (\<forall>x y. 0 < x \<longrightarrow> 0 \<le> pow x y)"

definition euclidean_distance :: "location \<Rightarrow> location \<Rightarrow> real" where
  "euclidean_distance a b = sqrt ((latitude a - latitude b)\<^sup>2 + (longitude a - longitude b)\<^sup>2)"

definition driver_distance :: "libm_pow \<Rightarrow> location \<Rightarrow> oid \<times> Driver \<Rightarrow> real" where
  "driver_distance pow p x = distance pow p (driver_location (snd x))"

definition first_nearest ::
    "libm_pow \<Rightarrow> location \<Rightarrow> (oid \<times> Driver) list \<Rightarrow> oid \<times> Driver \<Rightarrow> bool" where
  "first_nearest pow p xs r =
     (\<exists>pre post. xs = pre @ r # post
        \<and> (\<forall>y \<in> set pre. driver_distance pow p r < driver_distance pow p y)
        \<and> (\<forall>y \<in> set post. driver_distance pow p r \<le> driver_distance pow p y))"

definition scale :: "real \<Rightarrow> int" where
  "scale x =
     (if 1 \<le> \<bar>x\<bar> then 53 - int (bit_length \<lfloor>\<bar>x\<bar>\<rfloor>)
      else int (min (bit_length \<lfloor>1 / \<bar>x\<bar>\<rfloor> + 52) 1074))"

definition delivered_minutes :: "delivery_doc list \<Rightarrow> real list" where
  "delivered_minutes c =
     concat (map (\<lambda>d. case actual_delivery_time d of
                         None \<Rightarrow> []
                       | Some t \<Rightarrow> [divide_minutes (t - created_at d)])
               (filter (\<lambda>d. status d = ''delivered'') c))"

definition exact_minutes :: "delivery_doc list \<Rightarrow> real list" where
  "exact_minutes c =
     concat (map (\<lambda>d. case actual_delivery_time d of
                         None \<Rightarrow> []
                       | Some t \<Rightarrow> [of_int (t - created_at d) / 60000])
               (filter (\<lambda>d. status d = ''delivered'') c))"

definition mean :: "real list \<Rightarrow> real" where
  "mean xs = sum_list xs / of_nat (length xs)"



section \<open>Example data\<close>

definition empty_update :: update_data where
  "empty_update =
     \<lparr>upd_status = None, upd_current_location = None, upd_delivery_proof = None,
      upd_customer_notes = None, upd_driver_notes = None\<rparr>"

definition example_address :: address where
  "example_address =
     \<lparr>street = ''1 Main St'', city = ''Springfield'',
      coordinates = \<lparr>latitude = 0, longitude = 0\<rparr>\<rparr>"

definition example_request :: delivery_data where
  "example_request =
     \<lparr>dd_order_id = ''order-1'', dd_customer_id = ''cust-1'', dd_restaurant_id = ''rest-1'',
      dd_pickup_address = example_address, dd_delivery_address = example_address,
      dd_customer_phone = None, dd_delivery_instructions = None\<rparr>"

definition empty_db :: db where
  "empty_db = \<lparr>deliveries_collection = [], drivers_collection = []\<rparr>"

text \<open>
  One driver, a delivery assigned to that driver by \<^verbatim>\<open>create_delivery\<close> at time 0, and
  the same delivery after the update to \<^verbatim>\<open>delivered\<close> at time 1000.
\<close>

definition driver_ana :: driver_doc where
  "driver_ana =
     \<lparr>drv_id = Oid 7, drv_name = ''Ana'', drv_phone = ''555-0100'', drv_status = ''available'',
      is_online = True, current_delivery_id = None\<rparr>"

definition one_driver_db :: db where
  "one_driver_db = \<lparr>deliveries_collection = [], drivers_collection = [driver_ana]\<rparr>"

definition created_event :: track_event where
  "created_event = \<lparr>event = ''created'', description = ''Delivery created'', timestamp = 0\<rparr>"

definition assigned_delivery :: delivery_doc where
  "assigned_delivery =
     (new_delivery example_request (Oid 1) 0)
       \<lparr>driver_id := Some (Oid 7), status := ''assigned'',
        estimated_delivery_time := Some 1800000,
        tracking_history := [created_event]\<rparr>"

definition assigned_db :: db where
  "assigned_db =
     \<lparr>deliveries_collection = [assigned_delivery],
      drivers_collection =
        [driver_ana\<lparr>drv_status := ''busy'', current_delivery_id := Some (Oid 1)\<rparr>]\<rparr>"

definition delivered_db :: db where
  "delivered_db =
     \<lparr>deliveries_collection =
        [assigned_delivery
           \<lparr>status := ''delivered'', actual_delivery_time := Some 1000, updated_at := 1000,
            tracking_history := [created_event, status_event ''delivered'' 1000]\<rparr>],
      drivers_collection = [driver_ana]\<rparr>"

definition api_delivery :: Delivery where
  "api_delivery =
     \<lparr>d_order_id = ''order-1'', d_driver_id = Some (OidText (Oid 7)),
      d_pickup_address = example_address, d_delivery_address = example_address,
      d_status = ''assigned'', d_estimated_delivery_time = Some 1200000,
      d_actual_pickup_time = None, d_actual_delivery_time = None,
      tracking_number = ''trk-1'', d_created_at = 0, d_updated_at = 0\<rparr>"

definition api_driver :: Driver where
  "api_driver =
     \<lparr>name = ''Ana'', phone = ''555-0100'', vehicle_type = ''bike'',
      driver_location = \<lparr>latitude = 0, longitude = 0\<rparr>, is_available = False,
      rating = 4.5\<rparr>"

definition api_assigned :: api_state where
  "api_assigned =
     \<lparr>drivers = [(Oid 7, api_driver)], deliveries = [(Oid 1, api_delivery)],
      manager = \<lparr>active_connections = [], delivery_subscribers = Map.empty\<rparr>\<rparr>"

definition status_request :: "string \<Rightarrow> DeliveryUpdate" where
  "status_request st =
     \<lparr>u_delivery_id = ''1'', u_status = st, u_location = None, u_estimated_time = None\<rparr>"

definition driver_at :: "real \<Rightarrow> real \<Rightarrow> bool \<Rightarrow> Driver" where
  "driver_at lat lon free =
     \<lparr>name = ''driver'', phone = ''555-0100'', vehicle_type = ''bike'',
      driver_location = \<lparr>latitude = lat, longitude = lon\<rparr>, is_available = free,
      rating = 4.5\<rparr>"

definition four_drivers :: api_state where
  "four_drivers =
     \<lparr>drivers = [(Oid 1, driver_at 3 4 True), (Oid 2, driver_at 0 0 False),
                 (Oid 3, driver_at 0 1 True), (Oid 4, driver_at 1 0 True)],
      deliveries = [],
      manager = \<lparr>active_connections = [], delivery_subscribers = Map.empty\<rparr>\<rparr>"

definition origin :: location where
  "origin = \<lparr>latitude = 0, longitude = 0\<rparr>"

definition far_address :: address where
  "far_address =
     \<lparr>street = ''9 Hill Rd'', city = ''Springfield'',
      coordinates = \<lparr>latitude = 3, longitude = 4\<rparr>\<rparr>"

definition api_request :: Delivery where
  "api_request =
     \<lparr>d_order_id = ''order-2'', d_driver_id = None,
      d_pickup_address = example_address, d_delivery_address = far_address,
      d_status = ''pending'', d_estimated_delivery_time = None,
      d_actual_pickup_time = None, d_actual_delivery_time = None,
      tracking_number = ''trk-2'', d_created_at = 0, d_updated_at = 0\<rparr>"

definition two_subscribers :: ConnectionManager where
  "two_subscribers =
     \<lparr>active_connections = [1, 2, 3],
      delivery_subscribers = [OidText (Oid 1) \<mapsto> [1, 2], OidText (Oid 2) \<mapsto> [3]]\<rparr>"

definition example_message :: message where
  "example_message =
     \<lparr>msg_type = ''status_update'', msg_delivery = None, msg_location = None\<rparr>"


text \<open>
  An example of the C library function, for the two exponents of the source.  At the
  exponent 0.5 \<open>rounded_pow\<close> is the square root, computed from a whole square root with
  at least 55 binary digits and a sticky half digit and then rounded by \<open>fl\<close>; at every
  other exponent it is the rounded square.
\<close>

fun isqrt :: "int \<Rightarrow> int" where
  "isqrt n =
     (if n \<le> 0 then 0
      else (let r = 2 * isqrt (n div 4) in if (r + 1) * (r + 1) \<le> n then r + 1 else r))"

declare isqrt.simps [simp del]

definition rounded_sqrt :: "real \<Rightarrow> real" where
  "rounded_sqrt x =
     (let k = 54 + (if 1 \<le> x then 0 else bit_length \<lfloor>1 / x\<rfloor>);
          r = isqrt \<lfloor>x * 4 ^ k\<rfloor>
      in if of_int (r * r) = x * 4 ^ k then fl (of_int r / 2 ^ k)
         else fl ((of_int r + 1 / 2) / 2 ^ k))"

definition rounded_pow :: libm_pow where
  "rounded_pow x y = (if y = 1 / 2 then rounded_sqrt x else fl (x * x))"

text \<open>
  Two available drivers at the latitude 1, the first one at the longitude
  \<^verbatim>\<open>2 ** -30\<close>, which is 1 / 1073741824, the second one at the longitude 0.
\<close>

definition close_drivers :: api_state where
  "close_drivers =
     \<lparr>drivers = [(Oid 1, driver_at 1 (1 / 1073741824) True), (Oid 2, driver_at 1 0 True)],
      deliveries = [],
      manager = \<lparr>active_connections = [], delivery_subscribers = Map.empty\<rparr>\<rparr>"

text \<open>A dropoff three hundredths of a degree east of the origin, as a float.\<close>

definition near_east :: location where
  "near_east = \<lparr>latitude = 0, longitude = fl (3 / 100)\<rparr>"

text \<open>One delivery, delivered after 1500 milliseconds.\<close>

definition quick_db :: db where
  "quick_db =
     \<lparr>deliveries_collection =
        [assigned_delivery
           \<lparr>status := ''delivered'', actual_delivery_time := Some 1500, updated_at := 1500\<rparr>],
      drivers_collection = [driver_ana]\<rparr>"

section \<open>Facts about the store\<close>

lemma find_one_append:
  "find_one q (xs @ ys) = (case find_one q xs of None \<Rightarrow> find_one q ys | Some x \<Rightarrow> Some x)"
  by (induction xs) auto

lemma update_one_append_miss:
  "find_one q xs = None \<Longrightarrow> update_one q f (xs @ ys) = xs @ update_one q f ys"
  by (induction xs) (auto split: if_splits)

lemma find_one_update_one:
  "(\<And>x. q x \<Longrightarrow> q (f x)) \<Longrightarrow>
   find_one q (update_one q f xs) = map_option f (find_one q xs)"
  by (induction xs) auto

lemma update_one_miss: "find_one q xs = None \<Longrightarrow> update_one q f xs = xs"
  by (induction xs) (auto split: if_splits)

lemma update_one_twice:
  "(\<And>x. q x \<Longrightarrow> q (f x)) \<Longrightarrow> update_one q g (update_one q f c) = update_one q (g \<circ> f) c"
  by (induction c) auto

lemma update_one_same:
  "find_one q c = Some x \<Longrightarrow> f x = x \<Longrightarrow> update_one q f c = c"
  by (induction c) (auto split: if_splits)

lemma update_one_idem:
  assumes "\<And>x. q x \<Longrightarrow> q (f x)" and "\<And>x. f (f x) = f x"
  shows "update_one q f (update_one q f c) = update_one q f c"
proof -
  have "f \<circ> f = f" using assms(2) by (simp add: fun_eq_iff)
  then show ?thesis using assms(1) by (simp add: update_one_twice)
qed

lemma update_one_has_id_twice:
  "update_one (has_id i) (apsnd g) (update_one (has_id i) (apsnd f) c)
     = update_one (has_id i) (apsnd (g \<circ> f)) c"
  by (induction c) (auto simp: has_id_def)

section \<open>Facts about the delivery service\<close>

lemma find_one_by_id_update:
  "(\<And>x. dlv_id (f x) = dlv_id x) \<Longrightarrow>
   find_one (by_id i) (update_one (by_id i) f c) = map_option f (find_one (by_id i) c)"
  by (rule find_one_update_one) (simp add: by_id_def)

lemma after_status_change_delivered:
  "after_status_change ''delivered'' now =
     (\<lambda>d. d\<lparr>actual_delivery_time := Some now\<rparr>) \<circ> push_tracking (status_event ''delivered'' now)"
  by (simp add: fun_eq_iff after_status_change_def push_tracking_def)

lemma after_status_change_other:
  "st \<noteq> ''delivered'' \<Longrightarrow> after_status_change st now = push_tracking (status_event st now)"
  by (simp add: fun_eq_iff after_status_change_def push_tracking_def)

lemma by_id_push_tracking: "by_id i (push_tracking e x) = by_id i x"
  by (simp add: by_id_def push_tracking_def)

lemma add_tracking_event_deliveries:
  "ObjectId delivery_id = Some i \<Longrightarrow>
   deliveries_collection (add_tracking_event s delivery_id ev descr now) =
     update_one (by_id i) (push_tracking \<lparr>event = ev, description = descr, timestamp = now\<rparr>)
       (deliveries_collection s)"
  by (simp add: add_tracking_event_def)

lemma add_tracking_event_drivers:
  "drivers_collection (add_tracking_event s delivery_id ev descr now) = drivers_collection s"
  by (simp add: add_tracking_event_def split: option.splits)

lemma release_assigned_driver_deliveries:
  "deliveries_collection (release_assigned_driver s delivery_id) = deliveries_collection s"
  by (simp add: release_assigned_driver_def split: option.splits)

lemma handle_status_change_ok:
  "ObjectId delivery_id = Some i \<Longrightarrow> fst (handle_status_change s delivery_id st now) = None"
  by (simp add: handle_status_change_def Let_def)

lemma handle_status_change_deliveries:
  assumes "ObjectId delivery_id = Some i"
  shows "deliveries_collection (snd (handle_status_change s delivery_id st now)) =
     update_one (by_id i) (after_status_change st now) (deliveries_collection s)"
proof (cases "st = ''delivered''")
  case True
  then show ?thesis using assms
    by (simp add: handle_status_change_def Let_def release_assigned_driver_deliveries
        add_tracking_event_deliveries update_one_twice by_id_push_tracking
        after_status_change_delivered status_event_def)
next
  case False
  then show ?thesis using assms
    by (simp add: handle_status_change_def Let_def release_assigned_driver_deliveries
        add_tracking_event_deliveries after_status_change_other status_event_def)
qed

lemma handle_status_change_get:
  assumes "get_delivery s delivery_id = Some d"
  shows "get_delivery (snd (handle_status_change s delivery_id st now)) delivery_id
           = Some (after_status_change st now d)"
proof -
  from assms obtain i where i: "ObjectId delivery_id = Some i"
    and f: "find_one (by_id i) (deliveries_collection s) = Some d"
    by (auto simp: get_delivery_def split: option.splits)
  show ?thesis
    using i f
    by (simp add: get_delivery_def handle_status_change_deliveries find_one_by_id_update after_status_change_def)
qed

lemma handle_status_change_drivers:
  assumes "get_delivery s delivery_id = Some d"
  shows "drivers_collection (snd (handle_status_change s delivery_id st now)) =
           drivers_after st d (drivers_collection s)"
proof -
  from assms obtain i where i: "ObjectId delivery_id = Some i"
    and f: "find_one (by_id i) (deliveries_collection s) = Some d"
    by (auto simp: get_delivery_def split: option.splits)
  let ?s1 = "add_tracking_event s delivery_id st (status_message st) now"
  have g: "get_delivery ?s1 delivery_id = Some (push_tracking (status_event st now) d)"
    using i f
    by (simp add: get_delivery_def add_tracking_event_deliveries find_one_by_id_update
        push_tracking_def status_event_def)
  have r: "drivers_collection (release_assigned_driver ?s1 delivery_id) =
      (case driver_id d of None \<Rightarrow> drivers_collection s
       | Some drv \<Rightarrow> update_one (driver_by_id drv) release_driver (drivers_collection s))"
    using g
    by (simp add: release_assigned_driver_def add_tracking_event_drivers push_tracking_def
        split: option.splits)
  have "drivers_collection (snd (handle_status_change s delivery_id st now)) =
      (if st = ''delivered'' \<or> st = ''cancelled''
       then drivers_collection (release_assigned_driver ?s1 delivery_id)
       else drivers_collection s)"
    using i by (auto simp: handle_status_change_def Let_def add_tracking_event_drivers)
  then show ?thesis
    unfolding r by (simp add: drivers_after_def)
qed

lemma handle_status_change_unknown:
  assumes "get_delivery s delivery_id = None"
  shows "snd (handle_status_change s delivery_id st now) = s"
proof (cases "ObjectId delivery_id")
  case None
  then show ?thesis
    by (simp add: handle_status_change_def Let_def add_tracking_event_def
        release_assigned_driver_def get_delivery_def)
next
  case (Some i)
  with assms have m: "find_one (by_id i) (deliveries_collection s) = None"
    by (simp add: get_delivery_def)
  have a: "\<And>ev m. add_tracking_event s delivery_id ev m now = s"
    using Some m by (simp add: add_tracking_event_def update_one_miss)
  have r: "release_assigned_driver s delivery_id = s"
    using assms by (simp add: release_assigned_driver_def)
  show ?thesis
    using Some m
    by (simp add: handle_status_change_def Let_def a r update_one_miss)
qed

lemma before_write_unknown:
  "get_delivery s delivery_id = None \<Longrightarrow> before_write s delivery_id u now = s"
  by (simp add: before_write_def handle_status_change_unknown split: option.splits)

lemma before_write_get:
  "get_delivery s delivery_id = Some d \<Longrightarrow>
   get_delivery (before_write s delivery_id u now) delivery_id =
     Some (case upd_status u of None \<Rightarrow> d | Some st \<Rightarrow> after_status_change st now d)"
  by (simp add: before_write_def handle_status_change_get split: option.splits)

lemma update_delivery_unfold:
  assumes "ObjectId delivery_id = Some i"
  shows "update_delivery s delivery_id u now write_fails =
     (let s1 = before_write s delivery_id u now
      in if write_fails then (None, s1)
         else
           let c = deliveries_collection s1;
               s2 = s1\<lparr>deliveries_collection := update_one (by_id i) (set_fields u now) c\<rparr>
           in if modified_count (by_id i) (set_fields u now) c > 0
              then (get_delivery s2 delivery_id, s2)
              else (None, s2))"
  using assms
  by (simp add: update_delivery_def before_write_def Let_def handle_status_change_ok
      case_prod_beta split: option.splits)

lemma update_delivery_invalid:
  assumes "ObjectId delivery_id = None"
  shows "update_delivery s delivery_id u now write_fails = (None, s)"
proof -
  have "get_delivery s delivery_id = None" using assms by (simp add: get_delivery_def)
  then have "\<And>st. snd (handle_status_change s delivery_id st now) = s"
    by (rule handle_status_change_unknown)
  then show ?thesis using assms
    by (simp add: update_delivery_def Let_def case_prod_beta split: option.splits)
qed

lemma update_delivery_unknown:
  assumes "get_delivery s delivery_id = None"
  shows "update_delivery s delivery_id u now write_fails = (None, s)"
proof (cases "ObjectId delivery_id")
  case None
  then show ?thesis by (rule update_delivery_invalid)
next
  case (Some i)
  with assms have m: "find_one (by_id i) (deliveries_collection s) = None"
    by (simp add: get_delivery_def)
  show ?thesis
    using m assms
    by (simp add: update_delivery_unfold [OF Some] before_write_unknown Let_def
        modified_count_def update_one_miss)
qed

lemma update_delivery_existing:
  assumes g: "get_delivery s delivery_id = Some d"
  shows "get_delivery (snd (update_delivery s delivery_id u now False)) delivery_id
           = Some (set_fields u now (doc_before_write u now d))"
    and "fst (update_delivery s delivery_id u now False)
           = (if set_fields u now (doc_before_write u now d) = doc_before_write u now d then None
              else Some (set_fields u now (doc_before_write u now d)))"
proof -
  let ?d0 = "doc_before_write u now d"
  from g obtain i where i: "ObjectId delivery_id = Some i"
    by (auto simp: get_delivery_def split: option.splits)
  have b: "find_one (by_id i) (deliveries_collection (before_write s delivery_id u now)) = Some ?d0"
    using before_write_get [OF g, of u now] i by (simp add: get_delivery_def doc_before_write_def)
  have k: "\<And>x. dlv_id (set_fields u now x) = dlv_id x" by (simp add: set_fields_def)
  show "get_delivery (snd (update_delivery s delivery_id u now False)) delivery_id
           = Some (set_fields u now ?d0)"
    using i b by (simp add: update_delivery_unfold [OF i] Let_def get_delivery_def
        find_one_by_id_update [OF k])
  show "fst (update_delivery s delivery_id u now False)
           = (if set_fields u now ?d0 = ?d0 then None else Some (set_fields u now ?d0))"
    using i b by (simp add: update_delivery_unfold [OF i] Let_def get_delivery_def
        find_one_by_id_update [OF k] modified_count_def)
qed

lemma update_delivery_write_fails:
  "update_delivery s delivery_id u now True = (None, before_write s delivery_id u now)"
proof (cases "ObjectId delivery_id")
  case None
  then have "get_delivery s delivery_id = None" by (simp add: get_delivery_def)
  then show ?thesis
    by (simp add: update_delivery_unknown before_write_unknown)
next
  case (Some i)
  then show ?thesis by (simp add: update_delivery_unfold [OF Some])
qed

lemma update_delivery_drivers:
  assumes "get_delivery s delivery_id = Some d" and "upd_status u = Some st"
  shows "drivers_collection (snd (update_delivery s delivery_id u now write_fails)) =
           drivers_after st d (drivers_collection s)"
proof -
  from assms obtain i where i: "ObjectId delivery_id = Some i"
    by (auto simp: get_delivery_def split: option.splits)
  have "drivers_collection (before_write s delivery_id u now) = drivers_after st d (drivers_collection s)"
    using assms by (simp add: before_write_def handle_status_change_drivers)
  then show ?thesis
    by (simp add: update_delivery_unfold [OF i] Let_def)
qed

lemma update_delivery_some:
  assumes r: "fst (update_delivery s delivery_id u now write_fails) = Some d'"
  shows "\<not> write_fails \<and> (\<exists>d. get_delivery s delivery_id = Some d
           \<and> set_fields u now (doc_before_write u now d) \<noteq> doc_before_write u now d
           \<and> d' = set_fields u now (doc_before_write u now d))"
proof -
  have w: "\<not> write_fails"
    using r by (cases write_fails) (simp_all add: update_delivery_write_fails)
  have "get_delivery s delivery_id \<noteq> None"
  proof
    assume "get_delivery s delivery_id = None"
    then have "fst (update_delivery s delivery_id u now write_fails) = None"
      by (simp add: update_delivery_unknown)
    with r show False by simp
  qed
  then obtain d where d: "get_delivery s delivery_id = Some d" by auto
  from w r update_delivery_existing(2) [OF d, of u now]
  have "set_fields u now (doc_before_write u now d) \<noteq> doc_before_write u now d
        \<and> d' = set_fields u now (doc_before_write u now d)"
    by (auto split: if_splits)
  with w d show ?thesis by blast
qed

lemma find_one_driver_released:
  "find_one (driver_by_id drv) c = Some x \<Longrightarrow>
   \<exists>x'. find_one (driver_by_id drv) (update_one (driver_by_id drv) release_driver c) = Some x'
        \<and> drv_status x' = ''available'' \<and> current_delivery_id x' = None"
  by (subst find_one_update_one) (simp_all add: driver_by_id_def release_driver_def)

lemma release_twice:
  "update_one (driver_by_id i) release_driver (update_one (driver_by_id i) release_driver c)
     = update_one (driver_by_id i) release_driver c"
  by (rule update_one_idem) (simp_all add: driver_by_id_def release_driver_def)

lemma drivers_after_idem:
  "driver_id d' = driver_id d \<Longrightarrow>
   drivers_after st d' (drivers_after st d c) = drivers_after st d c"
  by (simp add: drivers_after_def release_twice split: option.splits)

section \<open>Facts about double precision numbers\<close>

lemma bit_length_bounds:
  "0 < n \<Longrightarrow> 2 ^ (bit_length n - 1) \<le> n \<and> n < 2 ^ bit_length n"
proof (induction n rule: bit_length.induct)
  case (1 n)
  show ?case
  proof (cases "n = 1")
    case True
    then show ?thesis by (simp add: bit_length.simps)
  next
    case False
    with 1 have p: "0 < n div 2" by simp
    from 1 p have ih: "2 ^ (bit_length (n div 2) - 1) \<le> n div 2" "n div 2 < 2 ^ bit_length (n div 2)"
      by simp_all
    have b: "bit_length n = Suc (bit_length (n div 2))"
      using 1(2) by (subst bit_length.simps) simp
    have pos: "0 < bit_length (n div 2)" using p by (subst bit_length.simps) simp
    then obtain j where j: "bit_length (n div 2) = Suc j" by (cases "bit_length (n div 2)") auto
    from ih j have "2 ^ j \<le> n div 2" "n div 2 < 2 * 2 ^ j" by simp_all
    then have "2 * 2 ^ j \<le> n" "n < 2 * (2 * 2 ^ j)" by linarith+
    then show ?thesis by (simp add: b j)
  qed
qed

lemma bit_length_pos: "0 < n \<Longrightarrow> 0 < bit_length n"
  by (subst bit_length.simps) simp

lemma two_powi_scale:
  "2 powi scale x =
     (if 1 \<le> \<bar>x\<bar> then 2 ^ 53 / 2 ^ bit_length \<lfloor>\<bar>x\<bar>\<rfloor>
      else 2 ^ min (bit_length \<lfloor>1 / \<bar>x\<bar>\<rfloor> + 52) 1074 :: real)"
  by (simp add: scale_def power_int_diff)

lemma fl_scale: "fl x = of_int (round_half_even (x * 2 powi scale x)) / 2 powi scale x"
proof (cases "1 \<le> \<bar>x\<bar>")
  case True
  define k where "k = bit_length \<lfloor>\<bar>x\<bar>\<rfloor>"
  have s: "2 powi scale x = (2::real) ^ 53 / 2 ^ k"
    using True by (simp only: two_powi_scale k_def if_True)
  show ?thesis
  proof (cases "53 \<le> k")
    case k: True
    then have "k = (k - 53) + 53" by simp
    then have "(2::real) ^ k = 2 ^ (k - 53) * 2 ^ 53" by (metis power_add)
    then have e: "(2::real) ^ 53 / 2 ^ k = 1 / 2 ^ (k - 53)" by simp
    have "fl x = of_int (round_half_even (x / 2 ^ (k - 53))) * 2 ^ (k - 53)"
      using True k by (simp add: fl_def Let_def k_def)
    then show ?thesis unfolding s e by simp
  next
    case k: False
    then have "53 = (53 - k) + k" by simp
    then have "(2::real) ^ 53 = 2 ^ (53 - k) * 2 ^ k" by (metis power_add)
    then have e: "(2::real) ^ 53 / 2 ^ k = 2 ^ (53 - k)" by (simp add: field_simps)
    have "fl x = of_int (round_half_even (x * 2 ^ (53 - k))) / 2 ^ (53 - k)"
      using True k by (simp add: fl_def Let_def k_def)
    then show ?thesis unfolding s e by simp
  qed
next
  case False
  then show ?thesis unfolding two_powi_scale by (simp add: fl_def Let_def)
qed

lemma scale_le: "scale x \<le> 1074"
  by (simp add: scale_def)

lemma scale_minus: "scale (- x) = scale x"
  by (simp add: scale_def)

lemma scaled_upper:
  assumes "0 < x" shows "x * 2 powi scale x \<le> 2 ^ 53"
proof (cases "1 \<le> x")
  case True
  then have p: "0 < \<lfloor>x\<rfloor>" by linarith
  define k where "k = bit_length \<lfloor>x\<rfloor>"
  from bit_length_bounds [OF p] have "\<lfloor>x\<rfloor> < 2 ^ k" by (simp add: k_def)
  then have "x < 2 ^ k" by (metis floor_less_iff of_int_numeral of_int_power)
  then have "x * (2 ^ 53 / 2 ^ k) \<le> 2 ^ 53" by (simp add: field_simps)
  then show ?thesis using True assms unfolding two_powi_scale by (simp add: k_def)
next
  case False
  define m where "m = bit_length \<lfloor>1 / x\<rfloor>"
  from False assms have "1 < 1 / x" by simp
  then have p: "0 < \<lfloor>1 / x\<rfloor>" by linarith
  from bit_length_bounds [OF p] have "2 ^ (m - 1) \<le> \<lfloor>1 / x\<rfloor>" by (simp add: m_def)
  then have "(2::real) ^ (m - 1) \<le> 1 / x"
    by (metis le_floor_iff of_int_numeral of_int_power)
  then have a: "x * 2 ^ (m - 1) \<le> 1" using assms by (simp add: field_simps)
  have mp: "0 < m" unfolding m_def using p by (rule bit_length_pos)
  have "x * 2 ^ (m + 52) = (x * 2 ^ (m - 1)) * 2 ^ 53"
    using mp by (cases m) (simp_all add: power_add)
  also have "\<dots> \<le> 1 * 2 ^ 53" using a by (intro mult_right_mono) simp_all
  finally have b: "x * 2 ^ (m + 52) \<le> 2 ^ 53" by simp
  have "x * 2 ^ min (m + 52) 1074 \<le> x * 2 ^ (m + 52)"
    using assms by (intro mult_left_mono power_increasing) simp_all
  with b have "x * 2 ^ min (m + 52) 1074 \<le> 2 ^ 53" by linarith
  moreover have "2 powi scale x = (2::real) ^ min (m + 52) 1074"
    using False assms by (simp add: two_powi_scale m_def)
  ultimately show ?thesis by simp
qed

lemma scaled_lower:
  assumes "0 < x" "scale x < 1074" shows "2 ^ 52 \<le> x * 2 powi scale x"
proof (cases "1 \<le> x")
  case True
  then have p: "0 < \<lfloor>x\<rfloor>" by linarith
  define k where "k = bit_length \<lfloor>x\<rfloor>"
  have kp: "0 < k" unfolding k_def using p by (rule bit_length_pos)
  from bit_length_bounds [OF p] have "2 ^ (k - 1) \<le> \<lfloor>x\<rfloor>" by (simp add: k_def)
  then have a: "(2::real) ^ (k - 1) \<le> x"
    by (metis le_floor_iff of_int_numeral of_int_power)
  have "(2::real) ^ k = 2 * 2 ^ (k - 1)" using kp by (cases k) simp_all
  with a have "2 ^ 52 \<le> x * (2 ^ 53 / 2 ^ k)" by (simp add: field_simps)
  then show ?thesis using True assms unfolding two_powi_scale by (simp add: k_def)
next
  case False
  define m where "m = bit_length \<lfloor>1 / x\<rfloor>"
  from False assms have "1 < 1 / x" by simp
  then have p: "0 < \<lfloor>1 / x\<rfloor>" by linarith
  from bit_length_bounds [OF p] have "\<lfloor>1 / x\<rfloor> < 2 ^ m" by (simp add: m_def)
  then have "1 / x < 2 ^ m"
    by (metis floor_less_iff of_int_numeral of_int_power)
  then have a: "1 \<le> x * 2 ^ m" using assms by (simp add: field_simps)
  have s: "scale x = int (min (m + 52) 1074)" using False assms by (simp add: scale_def m_def)
  with assms have s': "min (m + 52) 1074 = m + 52" by (simp add: min_def split: if_splits)
  have "x * 2 ^ (m + 52) = (x * 2 ^ m) * 2 ^ 52" by (simp add: power_add)
  also have "\<dots> \<ge> 1 * 2 ^ 52" using a by (intro mult_right_mono) simp_all
  finally show ?thesis using False assms s' unfolding two_powi_scale by (simp add: m_def)
qed

lemma round_half_even_mono: "x \<le> y \<Longrightarrow> round_half_even x \<le> round_half_even y"
proof -
  assume a: "x \<le> y"
  then have f: "\<lfloor>x\<rfloor> \<le> \<lfloor>y\<rfloor>" by (rule floor_mono)
  show ?thesis
  proof (cases "\<lfloor>x\<rfloor> = \<lfloor>y\<rfloor>")
    case True
    with a show ?thesis by (simp add: round_half_even_def Let_def)
  next
    case False
    with f have "\<lfloor>x\<rfloor> + 1 \<le> \<lfloor>y\<rfloor>" by simp
    moreover have "round_half_even x \<le> \<lfloor>x\<rfloor> + 1" by (simp add: round_half_even_def Let_def)
    moreover have "\<lfloor>y\<rfloor> \<le> round_half_even y" by (simp add: round_half_even_def Let_def)
    ultimately show ?thesis by linarith
  qed
qed

lemma round_half_even_of_int: "round_half_even (of_int n) = n"
  by (simp add: round_half_even_def)

lemma round_half_even_minus: "round_half_even (- x) = - round_half_even x"
proof (cases "x = of_int \<lfloor>x\<rfloor>")
  case True
  then have "round_half_even x = \<lfloor>x\<rfloor>" using round_half_even_of_int [of "\<lfloor>x\<rfloor>"] by simp
  moreover have "- x = of_int (- \<lfloor>x\<rfloor>)" using True by simp
  then have "round_half_even (- x) = - \<lfloor>x\<rfloor>"
    using round_half_even_of_int [of "- \<lfloor>x\<rfloor>"] by simp
  ultimately show ?thesis by simp
next
  case False
  define f where "f = \<lfloor>x\<rfloor>"
  have lo: "of_int f < x" using False unfolding f_def by linarith
  have hi: "x < of_int f + 1" unfolding f_def by linarith
  have c: "\<lfloor>- x\<rfloor> = - f - 1"
    by (rule floor_unique) (use lo hi in simp_all)
  consider (lo) "x - of_int f < 1 / 2" | (hi) "1 / 2 < x - of_int f" | (tie) "x - of_int f = 1 / 2"
    by linarith
  then show ?thesis
  proof cases
    case lo
    then have "round_half_even x = f" by (simp add: round_half_even_def f_def Let_def)
    moreover from lo have "round_half_even (- x) = - f"
      unfolding round_half_even_def Let_def c by simp
    ultimately show ?thesis by simp
  next
    case hi
    then have "round_half_even x = f + 1" by (simp add: round_half_even_def f_def Let_def)
    moreover from hi have "round_half_even (- x) = - f - 1"
      unfolding round_half_even_def Let_def c by simp
    ultimately show ?thesis by simp
  next
    case tie
    then have "round_half_even x = (if even f then f else f + 1)"
      by (simp add: round_half_even_def f_def Let_def)
    moreover from tie have "round_half_even (- x) = (if even f then - f else - f - 1)"
      unfolding round_half_even_def Let_def c by simp
    ultimately show ?thesis by simp
  qed
qed

lemma two_powi_pos: "0 < (2::real) powi s"
  by (simp add: zero_less_power_int)

lemma two_powi_Suc: "(2::real) powi (s + 1) = 2 * 2 powi s"
  by (simp add: power_int_add)

lemma two_powi_less: "s < t \<Longrightarrow> 2 * (2::real) powi s \<le> 2 powi t"
proof -
  assume "s < t"
  then have "s + 1 \<le> t" by simp
  then have "(2::real) powi (s + 1) \<le> 2 powi t" by (intro power_int_increasing) simp_all
  then show ?thesis by (simp add: two_powi_Suc)
qed

lemma fl_zero: "fl 0 = 0"
  by (simp add: fl_scale round_half_even_def)

lemma fl_minus: "fl (- x) = - fl x"
  by (simp add: fl_scale scale_minus round_half_even_minus)

lemma fl_nonneg: "0 \<le> x \<Longrightarrow> 0 \<le> fl x"
proof -
  assume "0 \<le> x"
  then have "0 \<le> x * 2 powi scale x" using two_powi_pos [of "scale x"] by simp
  from round_half_even_mono [OF this] have "0 \<le> round_half_even (x * 2 powi scale x)"
    by (simp add: round_half_even_def)
  then show ?thesis using two_powi_pos [of "scale x"] by (simp add: fl_scale)
qed

lemma fl_mono_pos:
  assumes "0 < x" "x \<le> y" shows "fl x \<le> fl y"
proof -
  define a where "a = (2::real) powi scale x"
  define b where "b = (2::real) powi scale y"
  have ap: "0 < a" and bp: "0 < b" unfolding a_def b_def by (rule two_powi_pos)+
  have y: "0 < y" using assms by simp
  have fx: "fl x = of_int (round_half_even (x * a)) / a" unfolding a_def by (rule fl_scale)
  have fy: "fl y = of_int (round_half_even (y * b)) / b" unfolding b_def by (rule fl_scale)
  have ux: "x * a \<le> 2 ^ 53" unfolding a_def using assms(1) by (rule scaled_upper)
  have uy: "y * b \<le> 2 ^ 53" unfolding b_def using y by (rule scaled_upper)
  consider (eq) "scale x = scale y" | (gt) "scale y < scale x" | (lt) "scale x < scale y"
    by linarith
  then show ?thesis
  proof cases
    case eq
    then have "a = b" by (simp add: a_def b_def)
    moreover have "x * b \<le> y * b" using assms bp by simp
    then have "round_half_even (x * b) \<le> round_half_even (y * b)" by (rule round_half_even_mono)
    ultimately show ?thesis unfolding fx fy using bp by (simp add: divide_right_mono)
  next
    case gt
    then have ab: "2 * b \<le> a" unfolding a_def b_def by (rule two_powi_less)
    have "scale y < 1074" using gt scale_le [of x] by simp
    then have "2 ^ 52 \<le> y * b" unfolding b_def using y by (intro scaled_lower)
    from round_half_even_mono [OF this] have "2 ^ 52 \<le> round_half_even (y * b)"
      using round_half_even_of_int [of "2 ^ 52"] by simp
    then have "(2::real) ^ 52 \<le> of_int (round_half_even (y * b))"
      by (metis of_int_le_iff of_int_numeral of_int_power)
    then have l: "2 ^ 52 / b \<le> fl y" unfolding fy using bp by (simp add: divide_right_mono)
    from round_half_even_mono [OF ux] have "round_half_even (x * a) \<le> 2 ^ 53"
      using round_half_even_of_int [of "2 ^ 53"] by simp
    then have "of_int (round_half_even (x * a)) \<le> (2::real) ^ 53"
      by (metis of_int_le_iff of_int_numeral of_int_power)
    then have u: "fl x \<le> 2 ^ 53 / a" unfolding fx using ap by (simp add: divide_right_mono)
    have "2 ^ 53 / a \<le> 2 ^ 52 / b" using ab ap bp by (simp add: field_simps)
    with l u show ?thesis by linarith
  next
    case lt
    then have ab: "2 * a \<le> b" unfolding a_def b_def by (rule two_powi_less)
    have "scale x < 1074" using lt scale_le [of y] by simp
    then have "2 ^ 52 \<le> x * a" unfolding a_def using assms(1) by (intro scaled_lower)
    then have "2 ^ 52 / a \<le> x" using ap by (simp add: field_simps)
    moreover have "y \<le> 2 ^ 53 / b" using uy bp by (simp add: field_simps)
    moreover have "2 ^ 53 / b \<le> 2 ^ 52 / a" using ab ap bp by (simp add: field_simps)
    ultimately have "y \<le> x" by linarith
    with assms have "x = y" by simp
    with lt show ?thesis by simp
  qed
qed

lemma fl_mono: "x \<le> y \<Longrightarrow> fl x \<le> fl y"
proof -
  assume a: "x \<le> y"
  consider "0 < x" | "x \<le> 0" "0 \<le> y" | "y < 0" by linarith
  then show ?thesis
  proof cases
    case 1
    then show ?thesis using a by (rule fl_mono_pos)
  next
    case 2
    then have "0 \<le> fl (- x)" "0 \<le> fl y" by (simp_all add: fl_nonneg)
    then show ?thesis by (simp add: fl_minus)
  next
    case 3
    then have "0 < - y" "- y \<le> - x" using a by simp_all
    then have "fl (- y) \<le> fl (- x)" by (rule fl_mono_pos)
    then show ?thesis by (simp add: fl_minus)
  qed
qed






lemma round2_zero: "round2 0 = 0"
  by (simp add: round2_def round_half_even_def fl_zero)

lemmas double_defs = fl_def round_half_even_def bit_length.simps round2_def float_pow_def
  rounded_pow_def rounded_sqrt_def isqrt.simps Let_def

lemma rounded_pow_not_negative: "pow_not_negative rounded_pow"
proof -
  have "0 \<le> rounded_sqrt x" for x
    unfolding rounded_sqrt_def Let_def
  proof (split if_split, intro conjI impI)
    let ?k = "54 + (if 1 \<le> x then 0 else bit_length \<lfloor>1 / x\<rfloor>)"
    have r: "0 \<le> isqrt n" for n
      by (induction n rule: isqrt.induct) (subst isqrt.simps, simp add: Let_def)
    show "0 \<le> fl (real_of_int (isqrt \<lfloor>x * 4 ^ ?k\<rfloor>) / 2 ^ ?k)"
      by (intro fl_nonneg divide_nonneg_nonneg) (simp_all add: r)
    show "0 \<le> fl ((real_of_int (isqrt \<lfloor>x * 4 ^ ?k\<rfloor>) + 1 / 2) / 2 ^ ?k)"
      by (intro fl_nonneg divide_nonneg_nonneg add_nonneg_nonneg) (simp_all add: r)
  qed
  then show ?thesis by (simp add: pow_not_negative_def rounded_pow_def fl_nonneg)
qed

lemma float_pow_nonneg: "pow_not_negative pow \<Longrightarrow> 0 \<le> float_pow pow iv iw"
  by (simp add: float_pow_def pow_not_negative_def)

section \<open>Facts about the statistics\<close>

lemma minutes_of_delivery:
  "(\<lambda>v. case v of None \<Rightarrow> [] | Some x \<Rightarrow> [x]) \<circ> delivery_time_minutes
     = (\<lambda>d. case actual_delivery_time d of
               None \<Rightarrow> []
             | Some t \<Rightarrow> [divide_minutes (t - created_at d)])"
  by (simp add: fun_eq_iff delivery_time_minutes_def split: option.splits)

lemma avg_minutes:
  "avg (map delivery_time_minutes (filter (\<lambda>d. status d = ''delivered'') c))
     = (if delivered_minutes c = [] then None else Some (avg_doubles (delivered_minutes c)))"
  unfolding avg_def delivered_minutes_def Let_def map_map minutes_of_delivery
  by simp

lemma get_delivery_statistics_eq:
  "get_delivery_statistics s =
     (let c = deliveries_collection s;
          total = length c;
          completed = length (filter (\<lambda>d. status d = ''delivered'') c)
      in if completed \<noteq> 0 \<and> delivered_minutes c = [] then Inl TypeError
         else Inr \<lparr>total_deliveries = total,
                   completed_deliveries = completed,
                   pending_deliveries =
                     length (filter (\<lambda>d. status d \<noteq> ''delivered'' \<and> status d \<noteq> ''cancelled'') c),
                   active_drivers =
                     length (filter (\<lambda>d. drv_status d = ''busy'') (drivers_collection s)),
                   available_drivers =
                     length (filter (\<lambda>d. drv_status d = ''available'' \<and> is_online d)
                               (drivers_collection s)),
                   average_delivery_time_minutes =
                     (if completed = 0 then 0 else round2 (avg_doubles (delivered_minutes c))),
                   completion_rate =
                     (if total > 0
                      then round2 (fl (fl (of_nat completed / of_nat total) * 100))
                      else 0)\<rparr>)"
  by (simp add: get_delivery_statistics_def aggregate_avg_delivery_time_def count_documents_def
      avg_minutes Let_def round2_zero)


section \<open>Facts about the routes\<close>

lemma broadcast_and_respond_db:
  "drivers (fst (snd (broadcast_and_respond send_ok s k kind doc loc))) = drivers s
   \<and> deliveries (fst (snd (broadcast_and_respond send_ok s k kind doc loc))) = deliveries s"
  by (simp add: broadcast_and_respond_def Let_def case_prod_beta split: sum.splits option.splits)

lemma has_id_apsnd: "has_id i (apsnd f x) = has_id i x"
  by (simp add: has_id_def)

lemma update_delivery_status_db:
  assumes i: "ObjectId delivery_id = Some i"
    and f: "find_one (has_id i) (deliveries s) = Some (i, d)"
    and p: "u_status update = ''delivered'' \<longrightarrow>
              (\<forall>t. d_driver_id d = Some t \<longrightarrow> truthy t \<longrightarrow> ObjectId t \<noteq> None)"
  shows "drivers (fst (snd (update_delivery_status send_ok s delivery_id update now)))
           = drivers_after_route (u_status update) d (drivers s)"
    and "deliveries (fst (snd (update_delivery_status send_ok s delivery_id update now)))
           = update_one (has_id i) (apsnd (status_update_data update now)) (deliveries s)"
proof -
  define s1 where "s1 = (if u_status update = ''delivered''
       then s\<lparr>drivers := drivers_after_route ''delivered'' d (drivers s)\<rparr> else s)"
  have r: "(if u_status update = ''picked_up'' then Some s
            else if u_status update = ''delivered'' then release_on_delivered s i
            else Some s) = Some s1"
    using f p
    by (auto simp: s1_def release_on_delivered_def drivers_after_route_def truthy_def ObjectId_def
        split: option.splits id_text.splits)
  have d1: "deliveries s1 = deliveries s" by (simp add: s1_def)
  have m: "matched_count (has_id i) (deliveries s1) \<noteq> 0"
    using f by (simp add: matched_count_def d1)
  have u: "update_delivery_status send_ok s delivery_id update now =
      broadcast_and_respond send_ok
        (s1\<lparr>deliveries := update_one (has_id i) (apsnd (status_update_data update now)) (deliveries s1)\<rparr>)
        delivery_id ''status_update''
        (as_dict (find_one (has_id i)
           (update_one (has_id i) (apsnd (status_update_data update now)) (deliveries s1))))
        (u_location update)"
    using i m by (simp add: update_delivery_status_def r Let_def)
  show "drivers (fst (snd (update_delivery_status send_ok s delivery_id update now)))
           = drivers_after_route (u_status update) d (drivers s)"
    unfolding u by (simp add: broadcast_and_respond_db s1_def drivers_after_route_def)
  show "deliveries (fst (snd (update_delivery_status send_ok s delivery_id update now)))
           = update_one (has_id i) (apsnd (status_update_data update now)) (deliveries s)"
    unfolding u by (simp add: broadcast_and_respond_db d1)
qed

lemma find_one_driver_made_available:
  "find_one (has_id drv) c = Some x \<Longrightarrow>
   \<exists>x'. find_one (has_id drv)
          (update_one (has_id drv) (apsnd (\<lambda>y. y\<lparr>is_available := True\<rparr>)) c) = Some x'
        \<and> is_available (snd x')"
  by (subst find_one_update_one) (simp_all add: has_id_def)

lemma drivers_after_route_idem:
  "d_driver_id d' = d_driver_id d \<Longrightarrow>
   drivers_after_route st d' (drivers_after_route st d c) = drivers_after_route st d c"
  by (simp add: drivers_after_route_def update_one_has_id_twice comp_def split: option.splits)

section \<open>Facts about matching and the estimated time\<close>

lemma first_nearest_step:
  assumes "first_nearest pow p xs r"
  shows "first_nearest pow p (xs @ [y])
           (if driver_distance pow p y < driver_distance pow p r then y else r)"
proof -
  from assms obtain pre post where x: "xs = pre @ r # post"
    and a: "\<forall>z \<in> set pre. driver_distance pow p r < driver_distance pow p z"
    and b: "\<forall>z \<in> set post. driver_distance pow p r \<le> driver_distance pow p z"
    by (auto simp: first_nearest_def)
  show ?thesis
  proof (cases "driver_distance pow p y < driver_distance pow p r")
    case True
    have "\<forall>z \<in> set xs. driver_distance pow p y < driver_distance pow p z"
      using True a b x by fastforce
    then have "first_nearest pow p (xs @ [y]) y"
      unfolding first_nearest_def by (intro exI [of _ xs] exI [of _ "[]"]) simp
    with True show ?thesis by simp
  next
    case False
    have "xs @ [y] = pre @ r # (post @ [y])" using x by simp
    moreover have "\<forall>z \<in> set (post @ [y]). driver_distance pow p r \<le> driver_distance pow p z"
      using b False by auto
    ultimately have "first_nearest pow p (xs @ [y]) r"
      unfolding first_nearest_def using a by blast
    with False show ?thesis by simp
  qed
qed

lemma nearest_loop_first_nearest:
  "first_nearest pow p xs r \<Longrightarrow>
   \<exists>r'. nearest_loop pow p ys (Some (driver_distance pow p r)) (Some r) = Some r'
        \<and> first_nearest pow p (xs @ ys) r'"
proof (induction ys arbitrary: xs r)
  case Nil
  then show ?case by simp
next
  case (Cons y ys)
  let ?r = "if driver_distance pow p y < driver_distance pow p r then y else r"
  have "first_nearest pow p (xs @ [y]) ?r" using Cons.prems by (rule first_nearest_step)
  from Cons.IH [OF this] obtain r' where
    "nearest_loop pow p ys (Some (driver_distance pow p ?r)) (Some ?r) = Some r'"
    "first_nearest pow p ((xs @ [y]) @ ys) r'" by blast
  then have "nearest_loop pow p (y # ys) (Some (driver_distance pow p r)) (Some r) = Some r'"
    and "first_nearest pow p (xs @ y # ys) r'"
    by (cases "driver_distance pow p y < driver_distance pow p r";
        simp add: driver_distance_def Let_def)+
  then show ?case by blast
qed

lemma nearest_loop_start:
  "xs \<noteq> [] \<Longrightarrow> \<exists>r. nearest_loop pow p xs None None = Some r \<and> first_nearest pow p xs r"
proof (cases xs)
  case Nil
  assume "xs \<noteq> []" with Nil show ?thesis by simp
next
  case (Cons x xs')
  have "first_nearest pow p [x] x"
    unfolding first_nearest_def by (intro exI [of _ "[]"]) simp
  from nearest_loop_first_nearest [OF this, of xs'] obtain r where
    "nearest_loop pow p xs' (Some (driver_distance pow p x)) (Some x) = Some r"
    "first_nearest pow p ([x] @ xs') r" by blast
  then have "nearest_loop pow p xs None None = Some r" and "first_nearest pow p xs r"
    using Cons by (simp_all add: driver_distance_def Let_def)
  then show ?thesis by blast
qed

lemma distance_nonneg: "pow_not_negative pow \<Longrightarrow> 0 \<le> distance pow a b"
  by (simp add: distance_def float_pow_nonneg)

lemma distance_same: "distance pow a a = 0"
  by (simp add: distance_def float_pow_def fl_zero)

lemma calculate_eta_eq:
  "pow_not_negative pow \<Longrightarrow>
   calculate_eta pow p d now
     = now + timedelta_minutes (20 + \<lfloor>fl (distance pow d p * 100)\<rfloor>)"
  using fl_nonneg [of "distance pow d p * 100"]
  by (simp add: calculate_eta_def py_int_def distance_nonneg Let_def)

lemma find_nearest_driver_text:
  "find_nearest_driver pow a p = Some t \<Longrightarrow> \<exists>i. t = OidText i"
  by (auto simp: find_nearest_driver_def Let_def str_oid_def split: if_splits option.splits)

lemma create_delivery_route_stored:
  assumes n: "find_nearest_driver pow a (coordinates (d_pickup_address delivery)) = Some t"
    and f: "find_one (has_id new_id) (deliveries a) = None"
  shows "find_one (has_id new_id)
           (deliveries (fst (snd (create_delivery_route pow send_ok a delivery new_id now))))
         = Some (new_id,
             delivery\<lparr>d_driver_id := Some t, d_status := ''assigned'',
                      d_estimated_delivery_time :=
                        Some (calculate_eta pow (coordinates (d_pickup_address delivery))
                                (coordinates (d_delivery_address delivery)) now)\<rparr>)"
proof -
  from find_nearest_driver_text [OF n] obtain i where t: "t = OidText i" by blast
  let ?d = "delivery\<lparr>d_driver_id := Some t, d_status := ''assigned'',
                      d_estimated_delivery_time :=
                        Some (calculate_eta pow (coordinates (d_pickup_address delivery))
                                (coordinates (d_delivery_address delivery)) now)\<rparr>"
  let ?a1 = "a\<lparr>drivers := update_one (has_id i) (apsnd (\<lambda>d. d\<lparr>is_available := False\<rparr>))
                               (drivers a)\<rparr>"
  have an: "assign_nearest pow a delivery now = Some (?d, ?a1)"
    using n t by (simp add: assign_nearest_def truthy_def ObjectId_def)
  have "create_delivery_route pow send_ok a delivery new_id now =
      broadcast_and_respond send_ok (?a1\<lparr>deliveries := deliveries ?a1 @ [(new_id, ?d)]\<rparr>)
        (str_oid new_id) ''delivery_created''
        (Some \<lparr>key__id = Some new_id, key_id = Some (str_oid new_id), body = ?d\<rparr>) None"
    using f by (simp add: create_delivery_route_def an Let_def)
  then show ?thesis
    using f by (simp add: broadcast_and_respond_db find_one_append has_id_def)
qed

lemma four_drivers_distances:
  "distance rounded_pow origin (driver_location (driver_at 3 4 True)) = 5"
  "distance rounded_pow origin (driver_location (driver_at 0 1 True)) = 1"
  "distance rounded_pow origin (driver_location (driver_at 1 0 True)) = 1"
  by (simp_all add: distance_def origin_def driver_at_def double_defs)

lemma close_drivers_distances:
  "distance rounded_pow origin (driver_location (driver_at 1 (1 / 1073741824) True)) = 1"
  "distance rounded_pow origin (driver_location (driver_at 1 0 True)) = 1"
  by (simp_all add: distance_def origin_def driver_at_def double_defs)

lemma euclidean_distance_east:
  "0 \<le> x \<Longrightarrow> euclidean_distance \<lparr>latitude = 0, longitude = x\<rparr> origin = x"
  by (simp add: euclidean_distance_def origin_def)

section \<open>Facts about the broadcast\<close>

lemma send_loop_all_ok:
  "\<forall>c \<in> set cs. send_ok c \<Longrightarrow>
   send_loop send_ok k msg cs m sent = (None, m, sent @ map (\<lambda>c. (c, msg)) cs)"
  by (induction cs arbitrary: sent) simp_all

lemma send_delivery_update_all_ok:
  "delivery_subscribers m k = Some subs \<Longrightarrow> \<forall>c \<in> set subs. send_ok c \<Longrightarrow>
   send_delivery_update send_ok m k msg = (None, m, map (\<lambda>c. (c, msg)) subs)"
  by (simp add: send_delivery_update_def send_loop_all_ok)

lemma send_loop_receivers:
  "fst ` set (snd (snd (send_loop send_ok k msg cs m sent))) \<subseteq> fst ` set sent \<union> set cs"
proof (induction cs arbitrary: sent)
  case Nil
  then show ?case by simp
next
  case (Cons c cs)
  show ?case
  proof (cases "send_ok c")
    case True
    with Cons [of "sent @ [(c, msg)]"] show ?thesis by auto
  next
    case False
    then show ?thesis by auto
  qed
qed

lemma send_delivery_update_receivers:
  "fst ` set (snd (snd (send_delivery_update send_ok m k msg)))
     \<subseteq> (case delivery_subscribers m k of None \<Rightarrow> {} | Some subs \<Rightarrow> set subs)"
  using send_loop_receivers [of send_ok k msg _ m "[]"]
  by (auto simp: send_delivery_update_def split: option.splits)

section \<open>The example states are reached by the operations\<close>

lemmas example_defs = driver_ana_def one_driver_db_def created_event_def assigned_delivery_def
  assigned_db_def delivered_db_def example_request_def example_address_def new_delivery_def
  status_only_def status_event_def status_message_def status_messages_def empty_db_def

lemmas service_defs = create_delivery_def update_delivery_def handle_status_change_def
  add_tracking_event_def get_delivery_def release_assigned_driver_def find_available_driver_def
  ObjectId_def str_oid_def by_id_def driver_by_id_def push_tracking_def release_driver_def
  set_fields_def modified_count_def timedelta_minutes_def Let_def

lemmas route_defs = update_delivery_status_def release_on_delivered_def status_update_data_def
  broadcast_and_respond_def send_delivery_update_def serialize_delivery_def as_dict_def
  matched_count_def has_id_def truthy_def ObjectId_def str_oid_def Let_def

lemmas api_example_defs = api_delivery_def api_driver_def api_assigned_def status_request_def
  example_address_def

lemma assigned_db_reached:
  "create_delivery one_driver_db example_request (Oid 1) 0 =
     (Inr (assigned_delivery\<lparr>tracking_history := []\<rparr>), assigned_db)"
  by (simp add: example_defs service_defs)

lemma delivered_db_reached:
  "update_delivery assigned_db (OidText (Oid 1)) (status_only ''delivered'') 1000 False =
     (get_delivery delivered_db (OidText (Oid 1)), delivered_db)"
  by (simp add: example_defs service_defs)

section \<open>Examples of float results\<close>

text \<open>
  Results that differ from the ones of exact arithmetic.  The float nearest to 0.03 is
  below 0.03, a hundred times its distance from the origin is below 3, and yet the float
  product is 3.  The longitude 0.29 is no float; it is read as the float nearest to
  it, and the whole part of the product is 28.  The average of the single duration 1500 ms is the float nearest to
  0.025, which is above 0.025 and is rounded to 0.03.  The rate of 23 deliveries out of
  160 is computed as a float below 14.375 and is rounded to 14.37.
\<close>

lemma near_east_eta:
  "calculate_eta rounded_pow origin near_east 0 = timedelta_minutes 23"
  "20 + \<lfloor>euclidean_distance near_east origin * 100\<rfloor> = 22"
  "calculate_eta rounded_pow origin \<lparr>latitude = 0, longitude = 29 / 100\<rparr> 0
     = timedelta_minutes 48"
proof -
  show "calculate_eta rounded_pow origin \<lparr>latitude = 0, longitude = 29 / 100\<rparr> 0
     = timedelta_minutes 48"
    by (simp add: calculate_eta_def py_int_def distance_def origin_def
        timedelta_minutes_def double_defs)
  show "calculate_eta rounded_pow origin near_east 0 = timedelta_minutes 23"
    by (simp add: calculate_eta_def py_int_def distance_def origin_def near_east_def
        timedelta_minutes_def double_defs)
  have "0 \<le> fl (3 / 100)" by (intro fl_nonneg) simp
  then have e: "euclidean_distance near_east origin = fl (3 / 100)"
    unfolding near_east_def by (rule euclidean_distance_east)
  show "20 + \<lfloor>euclidean_distance near_east origin * 100\<rfloor> = 22"
    unfolding e by (simp add: double_defs)
qed

lemma quick_db_statistics:
  "map_sum id average_delivery_time_minutes (get_delivery_statistics quick_db)
     = Inr (fl (3 / 100))"
  "mean (exact_minutes (deliveries_collection quick_db)) = 1 / 40"
proof -
  have m: "delivered_minutes (deliveries_collection quick_db) = [divide_minutes 1500]"
    by (simp add: delivered_minutes_def quick_db_def example_defs)
  show "map_sum id average_delivery_time_minutes (get_delivery_statistics quick_db)
     = Inr (fl (3 / 100))"
    by (simp add: get_delivery_statistics_eq Let_def m)
       (simp add: quick_db_def example_defs avg_doubles_def divide_minutes_def double_defs)
  show "mean (exact_minutes (deliveries_collection quick_db)) = 1 / 40"
    by (simp add: exact_minutes_def mean_def quick_db_def example_defs)
qed

lemma rate_23_of_160:
  "round2 (fl (fl (23 / 160) * 100)) = fl (1437 / 100)"
  "(23 / 160 * 100 :: real) = 14375 / 1000"
  by (simp_all add: double_defs)

section \<open>The status state machine\<close>

text \<open>
  C1, as the code has it.  A delivery is created with status \<^verbatim>\<open>pending\<close> or
  \<^verbatim>\<open>assigned\<close>.  \<^verbatim>\<open>update_delivery\<close> checks no transition: on a delivery that exists,
  whatever its status (a terminal one too), the stored status after the call is the
  requested one, and when that differs from the old status the call returns the updated
  delivery.
\<close>

theorem update_delivery_no_transition_check:
  "(find_one (by_id new_id) (deliveries_collection s0) = None \<longrightarrow>
      (\<exists>d. fst (create_delivery s0 dd new_id now0) = Inr d
            \<and> (status d = ''pending'' \<or> status d = ''assigned'')))
   \<and> (get_delivery s delivery_id = Some d \<and> upd_status u = Some st \<longrightarrow>
        (\<exists>d'. get_delivery (snd (update_delivery s delivery_id u now False)) delivery_id = Some d'
              \<and> status d' = st
              \<and> (status d \<noteq> st \<longrightarrow> fst (update_delivery s delivery_id u now False) = Some d')))"
proof (intro conjI impI)
  assume "find_one (by_id new_id) (deliveries_collection s0) = None"
  then show "\<exists>d. fst (create_delivery s0 dd new_id now0) = Inr d
            \<and> (status d = ''pending'' \<or> status d = ''assigned'')"
    by (simp add: create_delivery_def Let_def new_delivery_def split: option.splits)
next
  assume a: "get_delivery s delivery_id = Some d \<and> upd_status u = Some st"
  let ?d' = "set_fields u now (after_status_change st now d)"
  have 1: "get_delivery (snd (update_delivery s delivery_id u now False)) delivery_id = Some ?d'"
    using update_delivery_existing(1) [of s delivery_id d u now] a
    by (simp add: doc_before_write_def)
  have 2: "status ?d' = st" using a by (simp add: set_fields_def)
  have 3: "status d \<noteq> st \<Longrightarrow> fst (update_delivery s delivery_id u now False) = Some ?d'"
  proof -
    assume n: "status d \<noteq> st"
    have "status (after_status_change st now d) = status d"
      by (simp add: after_status_change_def)
    with n 2 have "?d' \<noteq> after_status_change st now d" by auto
    then show ?thesis
      using update_delivery_existing(2) [of s delivery_id d u now] a
      by (simp add: doc_before_write_def)
  qed
  from 1 2 3 show "\<exists>d'. get_delivery (snd (update_delivery s delivery_id u now False)) delivery_id = Some d'
              \<and> status d' = st
              \<and> (status d \<noteq> st \<longrightarrow> fst (update_delivery s delivery_id u now False) = Some d')"
    by blast
qed

theorem update_delivery_no_transition_check_witness:
  "find_one (by_id (Oid 1)) (deliveries_collection one_driver_db) = None
   \<and> fst (create_delivery one_driver_db example_request (Oid 1) 0)
       = Inr (assigned_delivery\<lparr>tracking_history := []\<rparr>)
   \<and> map_option status (get_delivery delivered_db (OidText (Oid 1))) = Some ''delivered''
   \<and> upd_status (status_only ''picked_up'') = Some ''picked_up''
   \<and> (\<exists>d'. fst (update_delivery delivered_db (OidText (Oid 1)) (status_only ''picked_up'') 2000 False) = Some d'
          \<and> status d' = ''picked_up'')"
proof -
  have g: "get_delivery delivered_db (OidText (Oid 1)) = Some (hd (deliveries_collection delivered_db))"
    by (simp add: example_defs service_defs)
  have n: "status (hd (deliveries_collection delivered_db)) = ''delivered''"
    by (simp add: example_defs)
  have f: "find_one (by_id (Oid 1)) (deliveries_collection one_driver_db) = None"
    by (simp add: example_defs)
  from update_delivery_no_transition_check
    [where new_id = "Oid 1" and ?s0.0 = one_driver_db and dd = example_request and ?now0.0 = 0
       and s = delivered_db and delivery_id = "OidText (Oid 1)"
       and d = "hd (deliveries_collection delivered_db)" and u = "status_only ''picked_up''"
       and st = "''picked_up''" and now = 2000]
    g n f assigned_db_reached
  show ?thesis by (auto simp: status_only_def)
qed

theorem terminal_transition_counterexample:
  "map_option status (get_delivery delivered_db (OidText (Oid 1))) = Some ''delivered''
   \<and> map_option status
        (fst (update_delivery delivered_db (OidText (Oid 1)) (status_only ''picked_up'') 2000 False))
       = Some ''picked_up''
   \<and> map_option status
        (get_delivery
           (snd (update_delivery delivered_db (OidText (Oid 1)) (status_only ''picked_up'') 2000 False))
           (OidText (Oid 1)))
       = Some ''picked_up''
   \<and> map_option status
        (get_delivery (handle_payment_successful assigned_db ''order-1'' 500) (OidText (Oid 1)))
       = Some ''confirmed''"
  by (simp add: example_defs service_defs handle_payment_successful_def get_delivery_by_order_def)

section \<open>The side effects of a status\<close>

text \<open>
  C2, as the code has it.  In the delivery service a transition of a delivery with an
  assigned driver to \<^verbatim>\<open>delivered\<close> or \<^verbatim>\<open>cancelled\<close> releases the driver (status
  \<^verbatim>\<open>available\<close>, delivery reference cleared), \<^verbatim>\<open>delivered\<close> also sets
  \<^verbatim>\<open>actual_delivery_time\<close> to the current time, and every other status, \<^verbatim>\<open>failed\<close>
  included, leaves the drivers as they are.  In the status route of src/main.py
  \<^verbatim>\<open>picked_up\<close> sets \<^verbatim>\<open>actual_pickup_time\<close>, \<^verbatim>\<open>delivered\<close> sets
  \<^verbatim>\<open>actual_delivery_time\<close> and makes the driver available, and \<^verbatim>\<open>failed\<close> leaves the
  drivers as they are.
\<close>

theorem status_side_effects:
  "(get_delivery s delivery_id = Some d \<and> driver_id d = Some drv \<and> upd_status u = Some st \<longrightarrow>
      (st = ''delivered'' \<or> st = ''cancelled'' \<longrightarrow>
         (\<forall>x. find_one (driver_by_id drv) (drivers_collection s) = Some x \<longrightarrow>
            (\<exists>x'. find_one (driver_by_id drv)
                     (drivers_collection (snd (update_delivery s delivery_id u now False))) = Some x'
                 \<and> drv_status x' = ''available'' \<and> current_delivery_id x' = None)))
      \<and> (st = ''delivered'' \<longrightarrow>
           (\<exists>d'. get_delivery (snd (update_delivery s delivery_id u now False)) delivery_id = Some d'
                \<and> actual_delivery_time d' = Some now \<and> status d' = ''delivered''))
      \<and> (st \<noteq> ''delivered'' \<and> st \<noteq> ''cancelled'' \<longrightarrow>
           drivers_collection (snd (update_delivery s delivery_id u now False))
             = drivers_collection s))
   \<and> (ObjectId id' = Some i \<and> find_one (has_id i) (deliveries a) = Some (i, b)
        \<and> d_driver_id b = Some (str_oid drv') \<longrightarrow>
      (u_status r = ''picked_up'' \<longrightarrow>
         (\<exists>b'. find_one (has_id i)
                  (deliveries (fst (snd (update_delivery_status send_ok a id' r t)))) = Some (i, b')
              \<and> d_actual_pickup_time b' = Some t \<and> d_status b' = ''picked_up''))
      \<and> (u_status r = ''delivered'' \<longrightarrow>
           (\<exists>b'. find_one (has_id i)
                  (deliveries (fst (snd (update_delivery_status send_ok a id' r t)))) = Some (i, b')
              \<and> d_actual_delivery_time b' = Some t \<and> d_status b' = ''delivered'')
           \<and> (\<forall>x. find_one (has_id drv') (drivers a) = Some x \<longrightarrow>
                (\<exists>x'. find_one (has_id drv')
                         (drivers (fst (snd (update_delivery_status send_ok a id' r t)))) = Some x'
                     \<and> is_available (snd x'))))
      \<and> (u_status r = ''failed'' \<longrightarrow>
           drivers (fst (snd (update_delivery_status send_ok a id' r t))) = drivers a))"
proof (intro conjI impI allI)
  assume h: "get_delivery s delivery_id = Some d \<and> driver_id d = Some drv \<and> upd_status u = Some st"
  then have dr: "drivers_collection (snd (update_delivery s delivery_id u now False))
      = drivers_after st d (drivers_collection s)"
    by (simp add: update_delivery_drivers)
  {
    fix x
    assume "st = ''delivered'' \<or> st = ''cancelled''"
      and "find_one (driver_by_id drv) (drivers_collection s) = Some x"
    then show "\<exists>x'. find_one (driver_by_id drv)
                     (drivers_collection (snd (update_delivery s delivery_id u now False))) = Some x'
                 \<and> drv_status x' = ''available'' \<and> current_delivery_id x' = None"
      unfolding dr using h find_one_driver_released [of drv "drivers_collection s" x]
      by (auto simp: drivers_after_def)
  }
  {
    assume "st = ''delivered''"
    then show "\<exists>d'. get_delivery (snd (update_delivery s delivery_id u now False)) delivery_id = Some d'
                \<and> actual_delivery_time d' = Some now \<and> status d' = ''delivered''"
      using h update_delivery_existing(1) [of s delivery_id d u now]
      by (simp add: doc_before_write_def set_fields_def after_status_change_def)
  }
  {
    assume "st \<noteq> ''delivered'' \<and> st \<noteq> ''cancelled''"
    then show "drivers_collection (snd (update_delivery s delivery_id u now False))
             = drivers_collection s"
      unfolding dr by (simp add: drivers_after_def)
  }
next
  assume h: "ObjectId id' = Some i \<and> find_one (has_id i) (deliveries a) = Some (i, b)
        \<and> d_driver_id b = Some (str_oid drv')"
  then have p: "u_status r = ''delivered'' \<longrightarrow>
              (\<forall>t. d_driver_id b = Some t \<longrightarrow> truthy t \<longrightarrow> ObjectId t \<noteq> None)"
    by (simp add: str_oid_def ObjectId_def)
  note db = update_delivery_status_db [of id' i a b r, OF _ _ p]
  have dl: "deliveries (fst (snd (update_delivery_status send_ok a id' r t)))
           = update_one (has_id i) (apsnd (status_update_data r t)) (deliveries a)"
    using h db(2) by simp
  have dr: "drivers (fst (snd (update_delivery_status send_ok a id' r t)))
           = drivers_after_route (u_status r) b (drivers a)"
    using h db(1) by simp
  have fd: "find_one (has_id i) (deliveries (fst (snd (update_delivery_status send_ok a id' r t))))
      = Some (i, status_update_data r t b)"
    unfolding dl using h by (subst find_one_update_one) (simp_all add: has_id_def)
  {
    assume "u_status r = ''picked_up''"
    then show "\<exists>b'. find_one (has_id i)
                  (deliveries (fst (snd (update_delivery_status send_ok a id' r t)))) = Some (i, b')
              \<and> d_actual_pickup_time b' = Some t \<and> d_status b' = ''picked_up''"
      unfolding fd by (simp add: status_update_data_def)
  }
  {
    assume "u_status r = ''delivered''"
    then show "\<exists>b'. find_one (has_id i)
                  (deliveries (fst (snd (update_delivery_status send_ok a id' r t)))) = Some (i, b')
              \<and> d_actual_delivery_time b' = Some t \<and> d_status b' = ''delivered''"
      unfolding fd by (simp add: status_update_data_def)
  }
  {
    fix x
    assume "u_status r = ''delivered''" and "find_one (has_id drv') (drivers a) = Some x"
    then show "\<exists>x'. find_one (has_id drv')
                         (drivers (fst (snd (update_delivery_status send_ok a id' r t)))) = Some x'
                     \<and> is_available (snd x')"
      unfolding dr using h find_one_driver_made_available [of drv' "drivers a" x]
      by (simp add: drivers_after_route_def str_oid_def ObjectId_def)
  }
  {
    assume "u_status r = ''failed''"
    then show "drivers (fst (snd (update_delivery_status send_ok a id' r t))) = drivers a"
      unfolding dr by (simp add: drivers_after_route_def)
  }
qed

theorem status_side_effects_witness:
  "get_delivery assigned_db (OidText (Oid 1)) = Some assigned_delivery
   \<and> driver_id assigned_delivery = Some (Oid 7)
   \<and> map_option drv_status (find_one (driver_by_id (Oid 7)) (drivers_collection assigned_db))
       = Some ''busy''
   \<and> map_option drv_status (find_one (driver_by_id (Oid 7)) (drivers_collection
        (snd (update_delivery assigned_db (OidText (Oid 1)) (status_only ''delivered'') 1000 False))))
       = Some ''available''
   \<and> map_option actual_delivery_time (get_delivery
        (snd (update_delivery assigned_db (OidText (Oid 1)) (status_only ''delivered'') 1000 False))
        (OidText (Oid 1))) = Some (Some 1000)
   \<and> drivers_collection
        (snd (update_delivery assigned_db (OidText (Oid 1)) (status_only ''failed'') 1000 False))
       = drivers_collection assigned_db
   \<and> find_one (has_id (Oid 1)) (deliveries api_assigned) = Some (Oid 1, api_delivery)
   \<and> d_driver_id api_delivery = Some (str_oid (Oid 7))
   \<and> map_option (\<lambda>x. d_actual_pickup_time (snd x)) (find_one (has_id (Oid 1)) (deliveries (fst (snd
        (update_delivery_status (\<lambda>_. True) api_assigned (OidText (Oid 1))
           (status_request ''picked_up'') 1000))))) = Some (Some 1000)
   \<and> map_option (\<lambda>x. d_actual_delivery_time (snd x)) (find_one (has_id (Oid 1)) (deliveries (fst (snd
        (update_delivery_status (\<lambda>_. True) api_assigned (OidText (Oid 1))
           (status_request ''delivered'') 1000))))) = Some (Some 1000)
   \<and> map_option (\<lambda>x. is_available (snd x)) (find_one (has_id (Oid 7)) (drivers (fst (snd
        (update_delivery_status (\<lambda>_. True) api_assigned (OidText (Oid 1))
           (status_request ''delivered'') 1000))))) = Some True
   \<and> drivers (fst (snd (update_delivery_status (\<lambda>_. True) api_assigned (OidText (Oid 1))
           (status_request ''failed'') 1000))) = drivers api_assigned"
proof -
  have g: "get_delivery assigned_db (OidText (Oid 1)) = Some assigned_delivery"
    by (simp add: example_defs service_defs)
  have k: "driver_id assigned_delivery = Some (Oid 7)"
    by (simp add: example_defs)
  have f: "find_one (driver_by_id (Oid 7)) (drivers_collection assigned_db)
      = Some (driver_ana\<lparr>drv_status := ''busy'', current_delivery_id := Some (Oid 1)\<rparr>)"
    by (simp add: example_defs driver_by_id_def)
  have o: "ObjectId (OidText (Oid 1)) = Some (Oid 1)" by (simp add: ObjectId_def)
  have a: "find_one (has_id (Oid 1)) (deliveries api_assigned) = Some (Oid 1, api_delivery)"
    by (simp add: api_assigned_def has_id_def)
  have b: "d_driver_id api_delivery = Some (str_oid (Oid 7))"
    by (simp add: api_delivery_def str_oid_def)
  have c: "find_one (has_id (Oid 7)) (drivers api_assigned) = Some (Oid 7, api_driver)"
    by (simp add: api_assigned_def has_id_def)
  note A = status_side_effects
    [where s = assigned_db and delivery_id = "OidText (Oid 1)" and d = assigned_delivery
       and drv = "Oid 7" and now = 1000 and id' = "OidText (Oid 1)" and i = "Oid 1"
       and a = api_assigned and b = api_delivery and drv' = "Oid 7" and t = 1000
       and send_ok = "\<lambda>_. True"]
  note A1 = A [where u = "status_only ''delivered''" and st = "''delivered''"
                 and r = "status_request ''picked_up''"]
  note A2 = A [where u = "status_only ''failed''" and st = "''failed''"
                 and r = "status_request ''delivered''"]
  note A3 = A [where u = "status_only ''failed''" and st = "''failed''"
                 and r = "status_request ''failed''"]
  have 1: "map_option drv_status (find_one (driver_by_id (Oid 7)) (drivers_collection
        (snd (update_delivery assigned_db (OidText (Oid 1)) (status_only ''delivered'') 1000 False))))
       = Some ''available''"
    using A1 g k f by (auto simp: status_only_def)
  have 2: "map_option actual_delivery_time (get_delivery
        (snd (update_delivery assigned_db (OidText (Oid 1)) (status_only ''delivered'') 1000 False))
        (OidText (Oid 1))) = Some (Some 1000)"
    using A1 g k by (auto simp: status_only_def)
  have 3: "drivers_collection
        (snd (update_delivery assigned_db (OidText (Oid 1)) (status_only ''failed'') 1000 False))
       = drivers_collection assigned_db"
    using A2 g k by (simp add: status_only_def)
  have 4: "map_option (\<lambda>x. d_actual_pickup_time (snd x)) (find_one (has_id (Oid 1)) (deliveries (fst (snd
        (update_delivery_status (\<lambda>_. True) api_assigned (OidText (Oid 1))
           (status_request ''picked_up'') 1000))))) = Some (Some 1000)"
    using A1 o a b by (auto simp: status_request_def)
  have 5: "map_option (\<lambda>x. d_actual_delivery_time (snd x)) (find_one (has_id (Oid 1)) (deliveries (fst (snd
        (update_delivery_status (\<lambda>_. True) api_assigned (OidText (Oid 1))
           (status_request ''delivered'') 1000))))) = Some (Some 1000)"
    using A2 o a b by (auto simp: status_request_def)
  have 6: "map_option (\<lambda>x. is_available (snd x)) (find_one (has_id (Oid 7)) (drivers (fst (snd
        (update_delivery_status (\<lambda>_. True) api_assigned (OidText (Oid 1))
           (status_request ''delivered'') 1000))))) = Some True"
    using A2 o a b c by (auto simp: status_request_def)
  have 7: "drivers (fst (snd (update_delivery_status (\<lambda>_. True) api_assigned (OidText (Oid 1))
           (status_request ''failed'') 1000))) = drivers api_assigned"
    using A3 o a b by (simp add: status_request_def)
  from g k f 1 2 3 a b 4 5 6 7 show ?thesis by simp
qed

theorem failed_keeps_driver_counterexample:
  "map_option driver_id (get_delivery assigned_db (OidText (Oid 1))) = Some (Some (Oid 7))
   \<and> map_option status
        (fst (update_delivery assigned_db (OidText (Oid 1)) (status_only ''failed'') 1000 False))
       = Some ''failed''
   \<and> map (\<lambda>x. (drv_id x, drv_status x, current_delivery_id x))
        (drivers_collection
           (snd (update_delivery assigned_db (OidText (Oid 1)) (status_only ''failed'') 1000 False)))
       = [(Oid 7, ''busy'', Some (Oid 1))]
   \<and> map (\<lambda>x. (fst x, d_status (snd x), d_driver_id (snd x)))
        (deliveries (fst (snd (update_delivery_status (\<lambda>_. True) api_assigned (OidText (Oid 1))
           (status_request ''failed'') 1000))))
       = [(Oid 1, ''failed'', Some (OidText (Oid 7)))]
   \<and> map (\<lambda>x. (fst x, is_available (snd x)))
        (drivers (fst (snd (update_delivery_status (\<lambda>_. True) api_assigned (OidText (Oid 1))
           (status_request ''failed'') 1000))))
       = [(Oid 7, False)]"
  by (simp add: example_defs service_defs route_defs api_example_defs)

section \<open>Side effects and the ledger write\<close>

text \<open>
  C3, as the code has it.  An update that matches no delivery changes nothing and returns
  \<^verbatim>\<open>None\<close>.  On a delivery that exists the side effects of the new status run before
  the ledger write and nothing undoes them: when the write fails the call returns
  \<^verbatim>\<open>None\<close>, the status is not written, and the tracking event, the stamp and the
  release of the driver stay, exactly as when the write succeeds.
\<close>

theorem update_delivery_side_effects_before_write:
  "(get_delivery s0 id0 = None \<longrightarrow> update_delivery s0 id0 u0 now0 write_fails = (None, s0))
   \<and> (get_delivery s delivery_id = Some d \<and> upd_status u = Some st \<longrightarrow>
        fst (update_delivery s delivery_id u now True) = None
        \<and> get_delivery (snd (update_delivery s delivery_id u now True)) delivery_id
            = Some (after_status_change st now d)
        \<and> drivers_collection (snd (update_delivery s delivery_id u now True))
            = drivers_after st d (drivers_collection s)
        \<and> get_delivery (snd (update_delivery s delivery_id u now False)) delivery_id
            = Some (set_fields u now (after_status_change st now d))
        \<and> drivers_collection (snd (update_delivery s delivery_id u now False))
            = drivers_after st d (drivers_collection s))"
proof (intro conjI impI)
  assume "get_delivery s0 id0 = None"
  then show "update_delivery s0 id0 u0 now0 write_fails = (None, s0)"
    by (rule update_delivery_unknown)
next
  assume a: "get_delivery s delivery_id = Some d \<and> upd_status u = Some st"
  show "fst (update_delivery s delivery_id u now True) = None"
    by (simp add: update_delivery_write_fails)
  show "get_delivery (snd (update_delivery s delivery_id u now True)) delivery_id
            = Some (after_status_change st now d)"
    using a by (simp add: update_delivery_write_fails before_write_get)
  show "drivers_collection (snd (update_delivery s delivery_id u now True))
            = drivers_after st d (drivers_collection s)"
    using a by (simp add: update_delivery_drivers)
  show "get_delivery (snd (update_delivery s delivery_id u now False)) delivery_id
            = Some (set_fields u now (after_status_change st now d))"
    using a update_delivery_existing(1) [of s delivery_id d u now]
    by (simp add: doc_before_write_def)
  show "drivers_collection (snd (update_delivery s delivery_id u now False))
            = drivers_after st d (drivers_collection s)"
    using a by (simp add: update_delivery_drivers)
qed

theorem update_delivery_side_effects_before_write_witness:
  "get_delivery assigned_db (OidText (Oid 99)) = None
   \<and> update_delivery assigned_db (OidText (Oid 99)) (status_only ''delivered'') 1000 False
       = (None, assigned_db)
   \<and> get_delivery assigned_db (OidText (Oid 1)) = Some assigned_delivery
   \<and> upd_status (status_only ''delivered'') = Some ''delivered''
   \<and> fst (update_delivery assigned_db (OidText (Oid 1)) (status_only ''delivered'') 1000 True) = None
   \<and> drivers_collection
        (snd (update_delivery assigned_db (OidText (Oid 1)) (status_only ''delivered'') 1000 True))
       = [driver_ana]"
proof -
  have g0: "get_delivery assigned_db (OidText (Oid 99)) = None"
    by (simp add: example_defs service_defs)
  have g: "get_delivery assigned_db (OidText (Oid 1)) = Some assigned_delivery"
    by (simp add: example_defs service_defs)
  have u: "upd_status (status_only ''delivered'') = Some ''delivered''"
    by (simp add: status_only_def)
  have r: "drivers_after ''delivered'' assigned_delivery (drivers_collection assigned_db) = [driver_ana]"
    by (simp add: drivers_after_def example_defs driver_by_id_def release_driver_def)
  from update_delivery_side_effects_before_write
    [where ?s0.0 = assigned_db and ?id0.0 = "OidText (Oid 99)"
       and ?u0.0 = "status_only ''delivered''" and ?now0.0 = 1000 and write_fails = False
       and s = assigned_db and delivery_id = "OidText (Oid 1)" and d = assigned_delivery
       and u = "status_only ''delivered''" and st = "''delivered''" and now = 1000]
    g0 g u r
  show ?thesis by simp
qed

theorem failed_write_keeps_side_effects_counterexample:
  "fst (update_delivery assigned_db (OidText (Oid 1)) (status_only ''delivered'') 1000 True) = None
   \<and> map_option status
        (get_delivery
           (snd (update_delivery assigned_db (OidText (Oid 1)) (status_only ''delivered'') 1000 True))
           (OidText (Oid 1))) = Some ''assigned''
   \<and> map_option (\<lambda>d. map event (tracking_history d))
        (get_delivery
           (snd (update_delivery assigned_db (OidText (Oid 1)) (status_only ''delivered'') 1000 True))
           (OidText (Oid 1))) = Some [''created'', ''delivered'']
   \<and> map_option (\<lambda>d. map event (tracking_history d))
        (get_delivery assigned_db (OidText (Oid 1))) = Some [''created'']
   \<and> map drv_status (drivers_collection assigned_db) = [''busy'']
   \<and> map drv_status (drivers_collection
        (snd (update_delivery assigned_db (OidText (Oid 1)) (status_only ''delivered'') 1000 True)))
       = [''available'']"
  by (simp add: example_defs service_defs)

section \<open>Dispatch\<close>

text \<open>
  C4.  When the generated identifier is new, \<^verbatim>\<open>create_delivery\<close> returns a delivery and
  stores it at the end of the collection with exactly one tracking-history entry, the
  event \<^verbatim>\<open>created\<close>, whether or not a driver was matched; when no driver is available
  the delivery has status \<^verbatim>\<open>pending\<close> and no driver, and the drivers are untouched.
\<close>

theorem create_delivery_created_event:
  fixes s dd new_id now
  defines "r \<equiv> create_delivery s dd new_id now"
  defines "created \<equiv>
    \<lparr>event = ''created'', description = ''Delivery created'', timestamp = now\<rparr>"
  assumes fresh: "find_one (by_id new_id) (deliveries_collection s) = None"
  shows "\<exists>d. fst r = Inr d
      \<and> deliveries_collection (snd r) =
          deliveries_collection s @ [d\<lparr>tracking_history := [created]\<rparr>]
      \<and> get_delivery (snd r) (str_oid new_id) = Some (d\<lparr>tracking_history := [created]\<rparr>)
      \<and> tracking_history d = []
      \<and> (find_available_driver s (dd_pickup_address dd) = None \<longrightarrow>
            status d = ''pending'' \<and> driver_id d = None
            \<and> drivers_collection (snd r) = drivers_collection s)"
  using fresh unfolding r_def created_def
  by (auto simp: create_delivery_def Let_def add_tracking_event_def ObjectId_def str_oid_def
      get_delivery_def find_one_append update_one_append_miss by_id_def push_tracking_def
      new_delivery_def split: option.splits)

theorem create_delivery_created_event_witness:
  "find_one (by_id (Oid 1)) (deliveries_collection empty_db) = None
   \<and> find_available_driver empty_db (dd_pickup_address example_request) = None
   \<and> (\<exists>d. fst (create_delivery empty_db example_request (Oid 1) 1000) = Inr d
         \<and> status d = ''pending'' \<and> driver_id d = None
         \<and> map event (tracking_history (the (get_delivery
               (snd (create_delivery empty_db example_request (Oid 1) 1000))
               (str_oid (Oid 1))))) = [''created''])"
proof -
  have h: "find_one (by_id (Oid 1)) (deliveries_collection empty_db) = None"
    by (simp add: empty_db_def)
  have n: "find_available_driver empty_db (dd_pickup_address example_request) = None"
    by (simp add: empty_db_def find_available_driver_def)
  from create_delivery_created_event [OF h, of example_request 1000] n h show ?thesis
    by auto
qed

section \<open>Matching\<close>

text \<open>
  C5, as the code has it.  The candidates are the available drivers in store order, at
  most the first hundred; coordinates are latitudes and longitudes the models accept, and
  the C library's \<^verbatim>\<open>pow\<close> is not negative.  \<^verbatim>\<open>find_nearest_driver\<close> returns none exactly when
  there is no candidate; otherwise it returns the identifier of the first candidate whose
  distance from the pickup, as the floats compute it, is minimal: every candidate before
  it has a strictly larger computed distance, every candidate after it one that is at
  least as large.  The computed distance is not the straight-line distance: two
  candidates at different straight-line distances can have the same computed distance,
  and then the first one is returned even when it is the farther one.
\<close>

theorem find_nearest_driver_first_minimum:
  assumes "pow_not_negative pow" and "valid_location p" and "valid_drivers s"
  shows
  "(find_nearest_driver pow s p = None \<longleftrightarrow> available_drivers_list s = [])
   \<and> (available_drivers_list s \<noteq> [] \<longrightarrow>
        (\<exists>pre r post.
           available_drivers_list s = pre @ r # post
           \<and> find_nearest_driver pow s p = Some (str_oid (fst r))
           \<and> (\<forall>y \<in> set pre. distance pow p (driver_location (snd r))
                                < distance pow p (driver_location (snd y)))
           \<and> (\<forall>y \<in> set post. distance pow p (driver_location (snd r))
                                \<le> distance pow p (driver_location (snd y)))))"
proof (cases "available_drivers_list s = []")
  case True
  then show ?thesis by (simp add: find_nearest_driver_def)
next
  case False
  from nearest_loop_start [OF False, of pow p] obtain r where
    r: "nearest_loop pow p (available_drivers_list s) None None = Some r"
    and f: "first_nearest pow p (available_drivers_list s) r" by blast
  have "find_nearest_driver pow s p = Some (str_oid (fst r))"
    using False r by (simp add: find_nearest_driver_def Let_def)
  moreover from f obtain pre post where
    "available_drivers_list s = pre @ r # post"
    "\<forall>y \<in> set pre. distance pow p (driver_location (snd r))
                      < distance pow p (driver_location (snd y))"
    "\<forall>y \<in> set post. distance pow p (driver_location (snd r))
                       \<le> distance pow p (driver_location (snd y))"
    unfolding first_nearest_def driver_distance_def by blast
  ultimately have "\<exists>pre r post.
           available_drivers_list s = pre @ r # post
           \<and> find_nearest_driver pow s p = Some (str_oid (fst r))
           \<and> (\<forall>y \<in> set pre. distance pow p (driver_location (snd r))
                                < distance pow p (driver_location (snd y)))
           \<and> (\<forall>y \<in> set post. distance pow p (driver_location (snd r))
                                \<le> distance pow p (driver_location (snd y)))"
    by blast
  moreover have "find_nearest_driver pow s p \<noteq> None"
    using \<open>find_nearest_driver pow s p = Some (str_oid (fst r))\<close> by simp
  ultimately show ?thesis using False by blast
qed

theorem find_nearest_driver_first_minimum_witness:
  "pow_not_negative rounded_pow \<and> valid_location origin \<and> valid_drivers four_drivers
   \<and> available_drivers_list four_drivers
     = [(Oid 1, driver_at 3 4 True), (Oid 3, driver_at 0 1 True), (Oid 4, driver_at 1 0 True)]
   \<and> find_nearest_driver rounded_pow four_drivers origin = Some (OidText (Oid 3))
   \<and> distance rounded_pow origin (driver_location (driver_at 0 1 True))
       = distance rounded_pow origin (driver_location (driver_at 1 0 True))
   \<and> (\<exists>pre r post.
           available_drivers_list four_drivers = pre @ r # post
           \<and> find_nearest_driver rounded_pow four_drivers origin = Some (str_oid (fst r))
           \<and> (\<forall>y \<in> set pre. distance rounded_pow origin (driver_location (snd r))
                                < distance rounded_pow origin (driver_location (snd y)))
           \<and> (\<forall>y \<in> set post. distance rounded_pow origin (driver_location (snd r))
                                \<le> distance rounded_pow origin (driver_location (snd y))))"
proof -
  have v: "valid_location origin" "valid_drivers four_drivers"
    by (simp_all add: valid_location_def valid_drivers_def origin_def four_drivers_def
        driver_at_def)
  have a: "available_drivers_list four_drivers
     = [(Oid 1, driver_at 3 4 True), (Oid 3, driver_at 0 1 True), (Oid 4, driver_at 1 0 True)]"
    by (simp add: available_drivers_list_def four_drivers_def driver_at_def)
  have n: "find_nearest_driver rounded_pow four_drivers origin = Some (OidText (Oid 3))"
    by (simp add: find_nearest_driver_def a Let_def four_drivers_distances str_oid_def)
  have e: "distance rounded_pow origin (driver_location (driver_at 0 1 True))
       = distance rounded_pow origin (driver_location (driver_at 1 0 True))"
    by (simp add: four_drivers_distances)
  have "available_drivers_list four_drivers \<noteq> []" using a by simp
  with find_nearest_driver_first_minimum [OF rounded_pow_not_negative v]
       rounded_pow_not_negative v a n e
  show ?thesis by simp
qed

theorem nearest_computed_not_nearest_counterexample:
  "valid_location origin \<and> valid_drivers close_drivers
   \<and> available_drivers_list close_drivers
       = [(Oid 1, driver_at 1 (1 / 1073741824) True), (Oid 2, driver_at 1 0 True)]
   \<and> find_nearest_driver rounded_pow close_drivers origin = Some (OidText (Oid 1))
   \<and> euclidean_distance origin (driver_location (driver_at 1 0 True))
       < euclidean_distance origin (driver_location (driver_at 1 (1 / 1073741824) True))
   \<and> distance rounded_pow origin (driver_location (driver_at 1 (1 / 1073741824) True)) = 1
   \<and> distance rounded_pow origin (driver_location (driver_at 1 0 True)) = 1"
proof -
  have v: "valid_location origin" "valid_drivers close_drivers"
    by (simp_all add: valid_location_def valid_drivers_def origin_def close_drivers_def
        driver_at_def)
  have a: "available_drivers_list close_drivers
       = [(Oid 1, driver_at 1 (1 / 1073741824) True), (Oid 2, driver_at 1 0 True)]"
    by (simp add: available_drivers_list_def close_drivers_def driver_at_def)
  have n: "find_nearest_driver rounded_pow close_drivers origin = Some (OidText (Oid 1))"
    by (simp add: find_nearest_driver_def a Let_def close_drivers_distances str_oid_def)
  have e: "euclidean_distance origin (driver_location (driver_at 1 0 True))
       < euclidean_distance origin (driver_location (driver_at 1 (1 / 1073741824) True))"
    by (simp add: euclidean_distance_def origin_def driver_at_def)
  show ?thesis using v a n e close_drivers_distances by simp
qed

section \<open>The estimated delivery time\<close>

text \<open>
  C6, as the code has it.  Coordinates are latitudes and longitudes the models accept,
  and the C library's \<^verbatim>\<open>pow\<close> is not negative.  \<^verbatim>\<open>calculate_eta\<close> returns the current time
  plus 20 minutes plus the whole part of the float product of 100 and the distance from
  pickup to dropoff as the floats compute it, in minutes; it does not decrease when the
  computed distance grows, and it is the current time plus 20 minutes when pickup and
  dropoff coincide.  The create route of src/main.py stores this value at assignment.
  \<^verbatim>\<open>DeliveryService.create_delivery\<close> does not: at assignment it sets the current time
  plus 30 minutes, whatever the distance.
\<close>

theorem eta_computation:
  assumes "pow_not_negative pow"
    and "valid_location p" and "valid_location d"
    and "valid_location p'" and "valid_location d'"
    and "valid_delivery delivery" and "valid_drivers a"
  shows
  "calculate_eta pow p d now
     = now + timedelta_minutes (20 + \<lfloor>fl (distance pow d p * 100)\<rfloor>)
   \<and> (distance pow d p \<le> distance pow d' p' \<longrightarrow>
        calculate_eta pow p d now \<le> calculate_eta pow p' d' now)
   \<and> calculate_eta pow p p now = now + timedelta_minutes 20
   \<and> (find_nearest_driver pow a (coordinates (d_pickup_address delivery)) \<noteq> None
        \<and> find_one (has_id new_id) (deliveries a) = None \<longrightarrow>
        (\<exists>b. find_one (has_id new_id)
                (deliveries (fst (snd (create_delivery_route pow send_ok a delivery new_id t))))
               = Some (new_id, b)
            \<and> d_status b = ''assigned''
            \<and> d_estimated_delivery_time b =
                Some (calculate_eta pow (coordinates (d_pickup_address delivery))
                        (coordinates (d_delivery_address delivery)) t)))
   \<and> (find_available_driver s (dd_pickup_address dd) \<noteq> None
        \<and> find_one (by_id new_id') (deliveries_collection s) = None \<longrightarrow>
        (\<exists>x. fst (create_delivery s dd new_id' t') = Inr x
            \<and> status x = ''assigned''
            \<and> estimated_delivery_time x = Some (t' + timedelta_minutes 30)))"
proof (intro conjI impI)
  note n = assms(1)
  show "calculate_eta pow p d now
     = now + timedelta_minutes (20 + \<lfloor>fl (distance pow d p * 100)\<rfloor>)"
    using n by (rule calculate_eta_eq)
  show "calculate_eta pow p p now = now + timedelta_minutes 20"
    by (simp add: calculate_eta_eq [OF n] distance_same fl_zero)
next
  assume "distance pow d p \<le> distance pow d' p'"
  then have "fl (distance pow d p * 100) \<le> fl (distance pow d' p' * 100)"
    by (intro fl_mono) simp
  then have "\<lfloor>fl (distance pow d p * 100)\<rfloor> \<le> \<lfloor>fl (distance pow d' p' * 100)\<rfloor>"
    by (rule floor_mono)
  then show "calculate_eta pow p d now \<le> calculate_eta pow p' d' now"
    by (simp add: calculate_eta_eq [OF assms(1)] timedelta_minutes_def)
next
  assume h: "find_nearest_driver pow a (coordinates (d_pickup_address delivery)) \<noteq> None
        \<and> find_one (has_id new_id) (deliveries a) = None"
  then obtain x where
    "find_nearest_driver pow a (coordinates (d_pickup_address delivery)) = Some x"
    by auto
  from create_delivery_route_stored [OF this, of new_id send_ok t] h
  show "\<exists>b. find_one (has_id new_id)
                (deliveries (fst (snd (create_delivery_route pow send_ok a delivery new_id t))))
               = Some (new_id, b)
            \<and> d_status b = ''assigned''
            \<and> d_estimated_delivery_time b =
                Some (calculate_eta pow (coordinates (d_pickup_address delivery))
                        (coordinates (d_delivery_address delivery)) t)"
    by simp
next
  assume "find_available_driver s (dd_pickup_address dd) \<noteq> None
        \<and> find_one (by_id new_id') (deliveries_collection s) = None"
  then show "\<exists>x. fst (create_delivery s dd new_id' t') = Inr x
            \<and> status x = ''assigned''
            \<and> estimated_delivery_time x = Some (t' + timedelta_minutes 30)"
    by (auto simp: create_delivery_def Let_def)
qed

theorem eta_computation_witness:
  "pow_not_negative rounded_pow
   \<and> valid_location origin \<and> valid_location (coordinates far_address)
   \<and> valid_delivery api_request \<and> valid_drivers four_drivers
   \<and> distance rounded_pow origin origin \<le> distance rounded_pow (coordinates far_address) origin
   \<and> calculate_eta rounded_pow origin origin 0
       \<le> calculate_eta rounded_pow origin (coordinates far_address) 0
   \<and> calculate_eta rounded_pow origin origin 0 = 1200000
   \<and> calculate_eta rounded_pow origin (coordinates far_address) 0 = 31200000
   \<and> find_nearest_driver rounded_pow four_drivers (coordinates (d_pickup_address api_request))
       \<noteq> None
   \<and> find_one (has_id (Oid 9)) (deliveries four_drivers) = None
   \<and> (\<exists>b. find_one (has_id (Oid 9))
             (deliveries (fst (snd (create_delivery_route rounded_pow (\<lambda>_. True) four_drivers
                                      api_request (Oid 9) 0))))
            = Some (Oid 9, b)
          \<and> d_estimated_delivery_time b = Some 31200000)
   \<and> find_available_driver one_driver_db (dd_pickup_address example_request) \<noteq> None
   \<and> find_one (by_id (Oid 1)) (deliveries_collection one_driver_db) = None
   \<and> (\<exists>x. fst (create_delivery one_driver_db example_request (Oid 1) 0) = Inr x
          \<and> estimated_delivery_time x = Some 1800000)"
proof -
  have v: "valid_location origin" "valid_location (coordinates far_address)"
    "valid_delivery api_request" "valid_drivers four_drivers"
    by (simp_all add: valid_location_def valid_delivery_def valid_drivers_def origin_def
        far_address_def api_request_def example_address_def four_drivers_def driver_at_def)
  have o: "coordinates example_address = origin"
    by (simp add: example_address_def origin_def)
  have f: "coordinates far_address = driver_location (driver_at 3 4 True)"
    by (simp add: far_address_def driver_at_def)
  have 0: "distance rounded_pow (coordinates far_address) origin = 5"
    by (simp add: distance_def origin_def far_address_def double_defs)
  have 1: "distance rounded_pow origin origin \<le> distance rounded_pow (coordinates far_address) origin"
    by (simp add: distance_same 0)
  have e: "calculate_eta rounded_pow origin (coordinates far_address) 0 = 31200000"
    by (simp add: calculate_eta_eq [OF rounded_pow_not_negative] 0 timedelta_minutes_def
        double_defs)
  have 6: "d_pickup_address api_request = example_address"
    "d_delivery_address api_request = far_address"
    by (simp_all add: api_request_def)
  have 2: "find_nearest_driver rounded_pow four_drivers (coordinates (d_pickup_address api_request))
      = Some (OidText (Oid 3))"
    by (simp add: find_nearest_driver_def available_drivers_list_def four_drivers_def
        6 o Let_def four_drivers_distances str_oid_def)
       (simp add: driver_at_def)
  have 3: "find_one (has_id (Oid 9)) (deliveries four_drivers) = None"
    by (simp add: four_drivers_def)
  have 4: "find_available_driver one_driver_db (dd_pickup_address example_request) \<noteq> None"
    by (simp add: find_available_driver_def one_driver_db_def driver_ana_def)
  have 5: "find_one (by_id (Oid 1)) (deliveries_collection one_driver_db) = None"
    by (simp add: one_driver_db_def)
  from eta_computation
    [OF rounded_pow_not_negative v(1) v(1) v(1) v(2) v(3) v(4),
     where now = 0 and new_id = "Oid 9"
       and t = 0 and send_ok = "\<lambda>_. True"
       and s = one_driver_db and dd = example_request and new_id' = "Oid 1" and t' = 0]
    rounded_pow_not_negative v 1 2 3 4 5 6 o e
  show ?thesis by (simp add: timedelta_minutes_def distance_same fl_zero) blast
qed

theorem service_eta_fixed_counterexample:
  "fst (create_delivery one_driver_db example_request (Oid 1) 0)
     = Inr (assigned_delivery\<lparr>tracking_history := []\<rparr>)
   \<and> status assigned_delivery = ''assigned''
   \<and> estimated_delivery_time (assigned_delivery\<lparr>tracking_history := []\<rparr>) = Some 1800000
   \<and> distance rounded_pow (coordinates (dd_delivery_address example_request))
        (coordinates (dd_pickup_address example_request)) = 0
   \<and> calculate_eta rounded_pow (coordinates (dd_pickup_address example_request))
        (coordinates (dd_delivery_address example_request)) 0 = 1200000"
  by (simp add: example_defs service_defs calculate_eta_def distance_def py_int_def
      float_pow_def fl_zero)

section \<open>Broadcast\<close>

text \<open>
  C7.  Connections 1 and 2 are subscribed to delivery 1, connection 3 to delivery 2; the
  send to connection 1 fails.  The broadcast for delivery 1 removes connection 1 from the
  subscribers and from the active connections and then ends with \<^verbatim>\<open>TypeError\<close>:
  connection 2 receives nothing.  (Connection 3 receives nothing either, as it should.)
\<close>

theorem broadcast_stops_at_first_failure:
  "fst (send_delivery_update (\<lambda>c. c \<noteq> 1) two_subscribers (OidText (Oid 1)) example_message)
     = Some TypeError
   \<and> snd (snd (send_delivery_update (\<lambda>c. c \<noteq> 1) two_subscribers (OidText (Oid 1))
                  example_message)) = []
   \<and> delivery_subscribers
        (fst (snd (send_delivery_update (\<lambda>c. c \<noteq> 1) two_subscribers (OidText (Oid 1))
                     example_message)))
        (OidText (Oid 1)) = Some [2]
   \<and> active_connections
        (fst (snd (send_delivery_update (\<lambda>c. c \<noteq> 1) two_subscribers (OidText (Oid 1))
                     example_message))) = [2, 3]"
  by (simp add: send_delivery_update_def two_subscribers_def disconnect_def truthy_def)

section \<open>Applying a transition twice\<close>

text \<open>
  C8, as the code has it.  Releasing a driver that is available and has no delivery
  reference changes nothing.  Applying the same status a second time leaves the drivers
  as the first application left them, but not the delivery: the delivery service appends
  a second tracking event and writes the new time into \<^verbatim>\<open>updated_at\<close> and, for
  \<^verbatim>\<open>delivered\<close>, into \<^verbatim>\<open>actual_delivery_time\<close>; the route of src/main.py writes the new
  time into \<^verbatim>\<open>updated_at\<close> and \<^verbatim>\<open>actual_delivery_time\<close>.
\<close>

theorem repeated_transition:
  "(find_one (driver_by_id drv) c = Some x \<and> drv_status x = ''available''
      \<and> current_delivery_id x = None \<longrightarrow>
        update_one (driver_by_id drv) release_driver c = c)
   \<and> (get_delivery s delivery_id = Some d \<longrightarrow>
        drivers_collection
          (snd (update_delivery
                  (snd (update_delivery s delivery_id (status_only st) t1 False))
                  delivery_id (status_only st) t2 False))
        = drivers_collection (snd (update_delivery s delivery_id (status_only st) t1 False))
        \<and> (\<exists>d1. get_delivery (snd (update_delivery s delivery_id (status_only st) t1 False))
                   delivery_id = Some d1
              \<and> status d1 = st
              \<and> get_delivery
                  (snd (update_delivery
                          (snd (update_delivery s delivery_id (status_only st) t1 False))
                          delivery_id (status_only st) t2 False))
                  delivery_id
                 = Some (d1\<lparr>tracking_history := tracking_history d1 @ [status_event st t2],
                            actual_delivery_time :=
                              (if st = ''delivered'' then Some t2 else actual_delivery_time d1),
                            updated_at := t2\<rparr>)))
   \<and> (ObjectId id' = Some i \<and> find_one (has_id i) (deliveries a) = Some (i, b)
        \<and> (d_driver_id b = None \<or> d_driver_id b = Some (str_oid drv'))
        \<and> u_status r = ''delivered'' \<longrightarrow>
        drivers (fst (snd (update_delivery_status send_ok'
                             (fst (snd (update_delivery_status send_ok a id' r t1))) id' r t2)))
        = drivers (fst (snd (update_delivery_status send_ok a id' r t1)))
        \<and> deliveries (fst (snd (update_delivery_status send_ok'
                             (fst (snd (update_delivery_status send_ok a id' r t1))) id' r t2)))
        = update_one (has_id i)
            (apsnd (\<lambda>y. y\<lparr>d_updated_at := t2, d_actual_delivery_time := Some t2\<rparr>))
            (deliveries (fst (snd (update_delivery_status send_ok a id' r t1)))))"
proof (intro conjI impI)
  assume "find_one (driver_by_id drv) c = Some x \<and> drv_status x = ''available''
      \<and> current_delivery_id x = None"
  then show "update_one (driver_by_id drv) release_driver c = c"
    by (intro update_one_same [of _ _ x]) (simp_all add: release_driver_def)
next
  assume g: "get_delivery s delivery_id = Some d"
  let ?u = "status_only st"
  let ?s1 = "snd (update_delivery s delivery_id ?u t1 False)"
  let ?d1 = "set_fields ?u t1 (after_status_change st t1 d)"
  have u: "upd_status ?u = Some st" by (simp add: status_only_def)
  have g1: "get_delivery ?s1 delivery_id = Some ?d1"
    using update_delivery_existing(1) [OF g, of ?u t1] by (simp add: doc_before_write_def u)
  have k: "driver_id ?d1 = driver_id d"
    by (simp add: set_fields_def after_status_change_def)
  have dr1: "drivers_collection ?s1 = drivers_after st d (drivers_collection s)"
    using g u by (rule update_delivery_drivers)
  have dr2: "drivers_collection (snd (update_delivery ?s1 delivery_id ?u t2 False))
      = drivers_after st ?d1 (drivers_collection ?s1)"
    using g1 u by (rule update_delivery_drivers)
  show "drivers_collection (snd (update_delivery ?s1 delivery_id ?u t2 False))
        = drivers_collection ?s1"
    unfolding dr2 unfolding dr1 using k by (rule drivers_after_idem)
  have g2: "get_delivery (snd (update_delivery ?s1 delivery_id ?u t2 False)) delivery_id
      = Some (set_fields ?u t2 (after_status_change st t2 ?d1))"
    using update_delivery_existing(1) [OF g1, of ?u t2] by (simp add: doc_before_write_def u)
  have e: "set_fields ?u t2 (after_status_change st t2 ?d1)
      = ?d1\<lparr>tracking_history := tracking_history ?d1 @ [status_event st t2],
            actual_delivery_time := (if st = ''delivered'' then Some t2 else actual_delivery_time ?d1),
            updated_at := t2\<rparr>"
    by (simp add: set_fields_def after_status_change_def status_only_def)
  have st1: "status ?d1 = st" by (simp add: set_fields_def status_only_def)
  show "\<exists>d1. get_delivery ?s1 delivery_id = Some d1 \<and> status d1 = st
        \<and> get_delivery (snd (update_delivery ?s1 delivery_id ?u t2 False)) delivery_id
            = Some (d1\<lparr>tracking_history := tracking_history d1 @ [status_event st t2],
                       actual_delivery_time :=
                         (if st = ''delivered'' then Some t2 else actual_delivery_time d1),
                       updated_at := t2\<rparr>)"
    using g1 g2 e st1 by (intro exI [of _ ?d1]) simp
next
  assume h: "ObjectId id' = Some i \<and> find_one (has_id i) (deliveries a) = Some (i, b)
        \<and> (d_driver_id b = None \<or> d_driver_id b = Some (str_oid drv'))
        \<and> u_status r = ''delivered''"
  let ?a1 = "fst (snd (update_delivery_status send_ok a id' r t1))"
  let ?b1 = "status_update_data r t1 b"
  have i: "ObjectId id' = Some i" and f: "find_one (has_id i) (deliveries a) = Some (i, b)"
    using h by simp_all
  have p: "u_status r = ''delivered'' \<longrightarrow>
              (\<forall>t. d_driver_id b = Some t \<longrightarrow> truthy t \<longrightarrow> ObjectId t \<noteq> None)"
    using h by (auto simp: str_oid_def ObjectId_def)
  have k: "d_driver_id ?b1 = d_driver_id b"
    by (simp add: status_update_data_def Let_def)
  have p1: "u_status r = ''delivered'' \<longrightarrow>
              (\<forall>t. d_driver_id ?b1 = Some t \<longrightarrow> truthy t \<longrightarrow> ObjectId t \<noteq> None)"
    using p k by simp
  note db = update_delivery_status_db [OF i f p, of send_ok t1]
  have f1: "find_one (has_id i) (deliveries ?a1) = Some (i, ?b1)"
    unfolding db(2) using f by (subst find_one_update_one) (simp_all add: has_id_def)
  note db2 = update_delivery_status_db [OF i f1 p1, of send_ok' t2]
  show "drivers (fst (snd (update_delivery_status send_ok' ?a1 id' r t2))) = drivers ?a1"
    unfolding db2(1) unfolding db(1) using k by (rule drivers_after_route_idem)
  have c: "status_update_data r t2 \<circ> status_update_data r t1
           = (\<lambda>y. y\<lparr>d_updated_at := t2, d_actual_delivery_time := Some t2\<rparr>) \<circ> status_update_data r t1"
    using h by (simp add: fun_eq_iff status_update_data_def Let_def)
  show "deliveries (fst (snd (update_delivery_status send_ok' ?a1 id' r t2)))
        = update_one (has_id i)
            (apsnd (\<lambda>y. y\<lparr>d_updated_at := t2, d_actual_delivery_time := Some t2\<rparr>))
            (deliveries ?a1)"
    unfolding db2(2) unfolding db(2)
    by (simp only: update_one_has_id_twice c)
qed

theorem repeated_transition_witness:
  "find_one (driver_by_id (Oid 7)) [driver_ana] = Some driver_ana
   \<and> drv_status driver_ana = ''available'' \<and> current_delivery_id driver_ana = None
   \<and> update_one (driver_by_id (Oid 7)) release_driver [driver_ana] = [driver_ana]
   \<and> get_delivery assigned_db (OidText (Oid 1)) = Some assigned_delivery
   \<and> drivers_collection
        (snd (update_delivery
                (snd (update_delivery assigned_db (OidText (Oid 1)) (status_only ''delivered'') 1000 False))
                (OidText (Oid 1)) (status_only ''delivered'') 2000 False))
      = drivers_collection
          (snd (update_delivery assigned_db (OidText (Oid 1)) (status_only ''delivered'') 1000 False))
   \<and> ObjectId (OidText (Oid 1)) = Some (Oid 1)
   \<and> find_one (has_id (Oid 1)) (deliveries api_assigned) = Some (Oid 1, api_delivery)
   \<and> d_driver_id api_delivery = Some (str_oid (Oid 7))
   \<and> u_status (status_request ''delivered'') = ''delivered''
   \<and> drivers (fst (snd (update_delivery_status (\<lambda>_. True)
         (fst (snd (update_delivery_status (\<lambda>_. True) api_assigned (OidText (Oid 1))
                      (status_request ''delivered'') 1000)))
         (OidText (Oid 1)) (status_request ''delivered'') 2000)))
      = drivers (fst (snd (update_delivery_status (\<lambda>_. True) api_assigned (OidText (Oid 1))
                      (status_request ''delivered'') 1000)))"
proof -
  have 1: "find_one (driver_by_id (Oid 7)) [driver_ana] = Some driver_ana
     \<and> drv_status driver_ana = ''available'' \<and> current_delivery_id driver_ana = None"
    by (simp add: driver_ana_def driver_by_id_def)
  have 2: "get_delivery assigned_db (OidText (Oid 1)) = Some assigned_delivery"
    by (simp add: example_defs service_defs)
  have 3: "ObjectId (OidText (Oid 1)) = Some (Oid 1)
     \<and> find_one (has_id (Oid 1)) (deliveries api_assigned) = Some (Oid 1, api_delivery)
     \<and> d_driver_id api_delivery = Some (str_oid (Oid 7))
     \<and> u_status (status_request ''delivered'') = ''delivered''"
    by (simp add: ObjectId_def api_assigned_def has_id_def api_delivery_def str_oid_def
        status_request_def)
  from repeated_transition
    [where drv = "Oid 7" and c = "[driver_ana]" and x = driver_ana
       and s = assigned_db and delivery_id = "OidText (Oid 1)" and d = assigned_delivery
       and st = "''delivered''" and ?t1.0 = 1000 and ?t2.0 = 2000
       and id' = "OidText (Oid 1)" and i = "Oid 1" and a = api_assigned and b = api_delivery
       and drv' = "Oid 7" and r = "status_request ''delivered''"
       and send_ok = "\<lambda>_. True" and send_ok' = "\<lambda>_. True"]
    1 2 3
  show ?thesis by simp
qed

theorem second_delivered_changes_state_counterexample:
  "update_delivery assigned_db (OidText (Oid 1)) (status_only ''delivered'') 1000 False
     = (get_delivery delivered_db (OidText (Oid 1)), delivered_db)
   \<and> snd (update_delivery delivered_db (OidText (Oid 1)) (status_only ''delivered'') 2000 False)
       \<noteq> delivered_db
   \<and> map_option (\<lambda>d. map event (tracking_history d))
        (get_delivery delivered_db (OidText (Oid 1))) = Some [''created'', ''delivered'']
   \<and> map_option (\<lambda>d. map event (tracking_history d))
        (get_delivery
           (snd (update_delivery delivered_db (OidText (Oid 1)) (status_only ''delivered'') 2000 False))
           (OidText (Oid 1))) = Some [''created'', ''delivered'', ''delivered'']
   \<and> map_option actual_delivery_time (get_delivery delivered_db (OidText (Oid 1)))
       = Some (Some 1000)
   \<and> map_option actual_delivery_time
        (get_delivery
           (snd (update_delivery delivered_db (OidText (Oid 1)) (status_only ''delivered'') 2000 False))
           (OidText (Oid 1))) = Some (Some 2000)"
  by (simp add: example_defs service_defs)

section \<open>Statistics\<close>




section \<open>The results of an update\<close>

text \<open>
  C10.  \<^verbatim>\<open>update_delivery\<close> returns \<^verbatim>\<open>None\<close> when the delivery is unknown (or its
  identifier does not parse), when the store raises at the write, and when the delivery
  exists but the \<^verbatim>\<open>$set\<close> changes no field of it (modified count 0); the last happens in
  the example, where the same call on an unknown identifier gives the same \<^verbatim>\<open>None\<close>.  It
  returns a delivery only when the write changed a field, and then it returns the
  document as written.
\<close>

theorem update_delivery_none_cases:
  "(get_delivery s delivery_id = None \<longrightarrow> fst (update_delivery s delivery_id u now write_fails) = None)
   \<and> fst (update_delivery s delivery_id u now True) = None
   \<and> (get_delivery s delivery_id = Some d
        \<and> set_fields u now (doc_before_write u now d) = doc_before_write u now d \<longrightarrow>
          fst (update_delivery s delivery_id u now False) = None)
   \<and> (fst (update_delivery s1 id1 u1 now1 w1) = Some d' \<longrightarrow>
        \<not> w1 \<and> (\<exists>d1. get_delivery s1 id1 = Some d1
           \<and> set_fields u1 now1 (doc_before_write u1 now1 d1) \<noteq> doc_before_write u1 now1 d1
           \<and> d' = set_fields u1 now1 (doc_before_write u1 now1 d1)))
   \<and> get_delivery delivered_db (OidText (Oid 1)) \<noteq> None
   \<and> fst (update_delivery delivered_db (OidText (Oid 1)) empty_update 1000 False) = None
   \<and> fst (update_delivery delivered_db (OidText (Oid 99)) empty_update 1000 False) = None"
proof (intro conjI impI)
  assume "get_delivery s delivery_id = None"
  then show "fst (update_delivery s delivery_id u now write_fails) = None"
    by (simp add: update_delivery_unknown)
next
  show "fst (update_delivery s delivery_id u now True) = None"
    by (simp add: update_delivery_write_fails)
next
  assume "get_delivery s delivery_id = Some d
        \<and> set_fields u now (doc_before_write u now d) = doc_before_write u now d"
  then show "fst (update_delivery s delivery_id u now False) = None"
    using update_delivery_existing(2) [of s delivery_id d u now] by simp
next
  assume "fst (update_delivery s1 id1 u1 now1 w1) = Some d'"
  then have *: "\<not> w1 \<and> (\<exists>d1. get_delivery s1 id1 = Some d1
           \<and> set_fields u1 now1 (doc_before_write u1 now1 d1) \<noteq> doc_before_write u1 now1 d1
           \<and> d' = set_fields u1 now1 (doc_before_write u1 now1 d1))"
    by (rule update_delivery_some)
  from * show "\<not> w1" by simp
  from * show "\<exists>d1. get_delivery s1 id1 = Some d1
           \<and> set_fields u1 now1 (doc_before_write u1 now1 d1) \<noteq> doc_before_write u1 now1 d1
           \<and> d' = set_fields u1 now1 (doc_before_write u1 now1 d1)" by simp
next
  show "get_delivery delivered_db (OidText (Oid 1)) \<noteq> None"
    by (simp add: example_defs service_defs)
  show "fst (update_delivery delivered_db (OidText (Oid 1)) empty_update 1000 False) = None"
    by (simp add: example_defs service_defs empty_update_def)
  show "fst (update_delivery delivered_db (OidText (Oid 99)) empty_update 1000 False) = None"
    by (simp add: example_defs service_defs empty_update_def)
qed

theorem update_delivery_none_cases_witness:
  "get_delivery delivered_db (OidText (Oid 99)) = None
   \<and> fst (update_delivery delivered_db (OidText (Oid 99)) empty_update 1000 False) = None
   \<and> map_option updated_at (get_delivery delivered_db (OidText (Oid 1))) = Some 1000
   \<and> fst (update_delivery delivered_db (OidText (Oid 1)) empty_update 1000 False) = None
   \<and> map_option status
        (fst (update_delivery delivered_db (OidText (Oid 1)) (status_only ''picked_up'') 2000 False))
       = Some ''picked_up''
   \<and> map_option status (get_delivery delivered_db (OidText (Oid 1))) = Some ''delivered''"
proof -
  let ?d = "hd (deliveries_collection delivered_db)"
  have g0: "get_delivery delivered_db (OidText (Oid 99)) = None"
    by (simp add: example_defs service_defs)
  have g: "get_delivery delivered_db (OidText (Oid 1)) = Some ?d"
    by (simp add: example_defs service_defs)
  have n: "set_fields empty_update 1000 (doc_before_write empty_update 1000 ?d)
           = doc_before_write empty_update 1000 ?d"
    by (simp add: example_defs set_fields_def doc_before_write_def empty_update_def)
  have p: "fst (update_delivery delivered_db (OidText (Oid 1)) (status_only ''picked_up'') 2000 False)
           = Some (set_fields (status_only ''picked_up'') 2000
                     (doc_before_write (status_only ''picked_up'') 2000 ?d))"
    by (simp add: example_defs service_defs doc_before_write_def after_status_change_def)
  have s: "status ?d = ''delivered''" "updated_at ?d = 1000"
    by (simp_all add: example_defs)
  note a = update_delivery_none_cases
    [where s = delivered_db and delivery_id = "OidText (Oid 99)" and u = empty_update
       and now = 1000 and write_fails = False]
  note b = update_delivery_none_cases
    [where s = delivered_db and delivery_id = "OidText (Oid 1)" and u = empty_update
       and now = 1000 and d = ?d
       and ?s1.0 = delivered_db and ?id1.0 = "OidText (Oid 1)"
       and ?u1.0 = "status_only ''picked_up''" and ?now1.0 = 2000 and ?w1.0 = False
       and d' = "set_fields (status_only ''picked_up'') 2000
                     (doc_before_write (status_only ''picked_up'') 2000 ?d)"]
  from a b g0 g n p s show ?thesis
    by (simp add: set_fields_def status_only_def)
qed

end
